theory Spec2Isabelle
  imports Complex_Main
begin

section \<open>Rate governor (src/middleware/rateLimiter.ts)\<close>

text \<open>
  A bucket is the object \<^verbatim>\<open>{ tokens, last, lastHit }\<close>; the field \<^verbatim>\<open>last\<close> is named
  \<open>last_t\<close> here because \<open>last\<close> is a list function of HOL. All three fields hold integral
  JavaScript numbers (a token count and two \<^verbatim>\<open>Date.now()\<close> readings in milliseconds), far
  below \<open>2^53\<close>, so they are modelled as \<open>int\<close>.
\<close>

record bucket =
  tokens :: int
  last_t :: int
  lastHit :: int

type_synonym buckets = "int \<rightharpoonup> bucket"

definition CAPACITY :: int where
  "CAPACITY = 5"

definition REFILL_MS :: int where
  "REFILL_MS = 6000"

definition MIN_GAP_MS :: int where
  "MIN_GAP_MS = 900"

text \<open>
  What the middleware does with the request: \<open>Next\<close> is \<^verbatim>\<open>return next()\<close> (admitted),
  \<open>SlowDown\<close> is the reply of the gap check, \<open>TooMany secs\<close> the reply of the empty bucket.
\<close>

datatype reply = Next | SlowDown | TooMany int

text \<open>The remainder \<^verbatim>\<open>%\<close> of JavaScript truncates towards zero (sign of the dividend).\<close>

definition js_rem :: "int \<Rightarrow> int \<Rightarrow> int" where
  "js_rem a b = sgn a * (\<bar>a\<bar> mod \<bar>b\<bar>)"

text \<open>\<^verbatim>\<open>Math.ceil(x / 1000)\<close> on an integer \<open>x\<close>.\<close>

definition ceil_div_1000 :: "int \<Rightarrow> int" where
  "ceil_div_1000 x = - ((- x) div 1000)"

text \<open>
  The block under \<^verbatim>\<open>// refill\<close>. \<^verbatim>\<open>Math.floor(elapsed / REFILL_MS)\<close> is only read when
  \<open>elapsed > 0\<close>, where it is \<open>elapsed div REFILL_MS\<close>.
\<close>

definition refill :: "int \<Rightarrow> bucket \<Rightarrow> bucket" where
  "refill now b =
     (let elapsed = now - last_t b in
      if elapsed > 0 then
        (let add = elapsed div REFILL_MS in
         if add > 0 then b\<lparr>tokens := min CAPACITY (tokens b + add), last_t := now\<rparr>
         else b)
      else b)"

text \<open>
  One run of the middleware for the chat id \<open>chat\<close> (\<open>None\<close> when \<^verbatim>\<open>ctx.chat\<close> is
  undefined) at the clock reading \<open>now\<close>. A falsy chat id (undefined or \<open>0\<close>) is let
  through without touching any bucket.
\<close>

definition rateLimiter :: "int option \<Rightarrow> int \<Rightarrow> buckets \<Rightarrow> reply \<times> buckets" where
  "rateLimiter chat now bs =
     (case chat of
        None \<Rightarrow> (Next, bs)
      | Some chatId \<Rightarrow>
          if chatId = 0 then (Next, bs)
          else
            (let b0 = (case bs chatId of
                         None \<Rightarrow> \<lparr>tokens = CAPACITY, last_t = now, lastHit = 0\<rparr>
                       | Some b \<Rightarrow> b);
                 b1 = refill now b0
             in if now - lastHit b1 < MIN_GAP_MS then (SlowDown, bs(chatId \<mapsto> b1))
                else if tokens b1 \<le> 0 then
                  (TooMany (ceil_div_1000 (REFILL_MS - js_rem (now - last_t b1) REFILL_MS)),
                   bs(chatId \<mapsto> b1))
                else (Next, bs(chatId \<mapsto> b1\<lparr>tokens := tokens b1 - 1, lastHit := now\<rparr>))))"

text \<open>A sequence of requests, each a chat id and the clock reading at which it arrives.\<close>

fun admissions :: "(int option \<times> int) list \<Rightarrow> buckets \<Rightarrow> reply list \<times> buckets" where
  "admissions [] bs = ([], bs)"
| "admissions ((chat, now) # cs) bs =
     (let (r, bs1) = rateLimiter chat now bs;
          (rs, bs2) = admissions cs bs1
      in (r # rs, bs2))"

definition admitted :: "reply \<Rightarrow> bool" where
  "admitted r = (r = Next)"

text \<open>The range of the token count that the data model asks of every bucket.\<close>

definition bucket_ok :: "bucket \<Rightarrow> bool" where
  "bucket_ok b = (0 \<le> tokens b \<and> tokens b \<le> CAPACITY)"

definition buckets_ok :: "buckets \<Rightarrow> bool" where
  "buckets_ok bs = (\<forall>c b. bs c = Some b \<longrightarrow> bucket_ok b)"

section \<open>TTL cache (utils/cache)\<close>

text \<open>
  A cached value is \<open>'v option\<close>: \<open>None\<close> is JavaScript's \<^verbatim>\<open>undefined\<close>, which can be
  stored like any other value. The store is the \<^verbatim>\<open>Map\<close> of the class.
\<close>

record 'v CacheEntry =
  val :: "'v option"
  expires :: int

type_synonym 'v cache_store = "string \<rightharpoonup> 'v CacheEntry"

text \<open>\<^verbatim>\<open>get\<close> at the clock reading \<open>now\<close>: the value read and the store afterwards.\<close>

definition cache_get :: "int \<Rightarrow> string \<Rightarrow> 'v cache_store \<Rightarrow> 'v option \<times> 'v cache_store" where
  "cache_get now key store =
     (case store key of
        None \<Rightarrow> (None, store)
      | Some hit \<Rightarrow>
          if expires hit < now then (None, store(key := None))
          else (val hit, store))"

definition cache_set :: "int \<Rightarrow> string \<Rightarrow> 'v option \<Rightarrow> int \<Rightarrow> 'v cache_store \<Rightarrow> 'v cache_store" where
  "cache_set now key v ttlMs store = store(key \<mapsto> \<lparr>val = v, expires = now + ttlMs\<rparr>)"

section \<open>Ephemeral callback store (utils/cbStore)\<close>

text \<open>
  The stored object \<^verbatim>\<open>{ v, exp }\<close>; the fields carry the suffix \<open>_p\<close> because \<open>exp\<close> is
  the exponential function of HOL.
\<close>

record 'v payload =
  v_p :: 'v
  exp_p :: int

type_synonym 'v cb_store = "string \<rightharpoonup> 'v payload"

definition TTL_MS :: int where
  "TTL_MS = 5 * 60 * 1000"

definition gc :: "int \<Rightarrow> 'v cb_store \<Rightarrow> 'v cb_store" where
  "gc now store = (\<lambda>k. case store k of
                          None \<Rightarrow> None
                        | Some p \<Rightarrow> if exp_p p < now then None else Some p)"

definition id_chars :: string where
  "id_chars = ''abcdefghijklmnopqrstuvwxyzABCDEFGHIJKLMNOPQRSTUVWXYZ0123456789-_''"

text \<open>
  \<^verbatim>\<open>randomId\<close>: \<open>draws\<close> are the successive values of
  \<^verbatim>\<open>Math.floor(Math.random() * chars.length)\<close>, each below 64.
\<close>

definition randomId :: "nat \<Rightarrow> nat list \<Rightarrow> string" where
  "randomId len draws = map (\<lambda>d. id_chars ! d) (take len draws)"

text \<open>
  \<^verbatim>\<open>putPayload\<close> reads the clock twice: \<open>now0\<close> inside \<^verbatim>\<open>gc()\<close>, \<open>now1\<close> for the expiry.
\<close>

definition putPayload ::
  "nat list \<Rightarrow> int \<Rightarrow> int \<Rightarrow> 'v \<Rightarrow> int \<Rightarrow> 'v cb_store \<Rightarrow> string \<times> 'v cb_store" where
  "putPayload draws now0 now1 value ttlMs store =
     (let store1 = gc now0 store;
          ident = randomId 12 draws
      in (ident, store1(ident \<mapsto> \<lparr>v_p = value, exp_p = now1 + ttlMs\<rparr>)))"

text \<open>\<open>None\<close> is the \<^verbatim>\<open>null\<close> returned on a miss.\<close>

definition takePayload :: "int \<Rightarrow> string \<Rightarrow> 'v cb_store \<Rightarrow> 'v option \<times> 'v cb_store" where
  "takePayload now ident store =
     (let store1 = gc now store in
      case store1 ident of
        None \<Rightarrow> (None, store1)
      | Some hit \<Rightarrow> (Some (v_p hit), store1(ident := None)))"

section \<open>Strings\<close>

text \<open>
  A JavaScript string is modelled as a \<open>string\<close> of HOL, each character one code unit in the
  range of Latin-1 (0 to 255). \<open>js_trim\<close> is \<^verbatim>\<open>String.prototype.trim\<close> on that range: the
  white space and line terminators below 256 are tab, line feed, vertical tab, form feed,
  carriage return, space and no-break space.
\<close>

definition is_js_space :: "char \<Rightarrow> bool" where
  "is_js_space c = ((of_char c :: nat) \<in> {9, 10, 11, 12, 13, 32, 160})"

definition js_trim :: "string \<Rightarrow> string" where
  "js_trim s = rev (dropWhile is_js_space (rev (dropWhile is_js_space s)))"

text \<open>
  \<^verbatim>\<open>toLowerCase\<close>: the letters A to Z and the Latin-1 capitals (192 to 222 without the
  multiplication sign 215) move up by 32.
\<close>

definition lower_char :: "char \<Rightarrow> char" where
  "lower_char c =
     (let n = (of_char c :: nat) in
      if (65 \<le> n \<and> n \<le> 90) \<or> (192 \<le> n \<and> n \<le> 222 \<and> n \<noteq> 215) then char_of (n + 32) else c)"

definition toLowerCase :: "string \<Rightarrow> string" where
  "toLowerCase s = map lower_char s"

text \<open>
  The upper-case form of a Latin-1 string does not stay inside Latin-1, so the result of
  \<^verbatim>\<open>toUpperCase\<close> is a list of UTF-16 code units. The letters a to z and the Latin-1
  small letters (224 to 254 without the division sign 247) move down by 32; the micro
  sign 181 becomes the Greek capital mu (924), the sharp s 223 becomes the two letters SS,
  and the y with diaeresis 255 becomes its capital (376); every other character is kept.
\<close>

definition units_of :: "string \<Rightarrow> nat list" where
  "units_of s = map of_char s"

definition upper_units :: "char \<Rightarrow> nat list" where
  "upper_units c =
     (let n = (of_char c :: nat) in
      if (97 \<le> n \<and> n \<le> 122) \<or> (224 \<le> n \<and> n \<le> 254 \<and> n \<noteq> 247) then [n - 32]
      else if n = 181 then [924]
      else if n = 223 then [83, 83]
      else if n = 255 then [376]
      else [n])"

definition toUpperCase :: "string \<Rightarrow> nat list" where
  "toUpperCase s = concat (map upper_units s)"

text \<open>A string is truthy when it is not empty.\<close>

definition truthy :: "string option \<Rightarrow> bool" where
  "truthy s = (case s of None \<Rightarrow> False | Some x \<Rightarrow> x \<noteq> [])"

text \<open>\<^verbatim>\<open>String(n)\<close> for a natural number.\<close>

fun nat_to_string :: "nat \<Rightarrow> string" where
  "nat_to_string n =
     (if n < 10 then [char_of (48 + n)]
      else nat_to_string (n div 10) @ [char_of (48 + n mod 10)])"

text \<open>The test \<^verbatim>\<open>/^0x[a-fA-F0-9]{40}$/\<close>.\<close>

definition is_hex :: "char \<Rightarrow> bool" where
  "is_hex c = (c \<in> set ''abcdefABCDEF0123456789'')"

definition isAddress :: "string \<Rightarrow> bool" where
  "isAddress s =
     (case s of
        a # b # rest \<Rightarrow> a = CHR ''0'' \<and> b = CHR ''x'' \<and> length rest = 40 \<and> list_all is_hex rest
      | _ \<Rightarrow> False)"

section \<open>Upstream data\<close>

text \<open>
  The responses of the two upstream services, as far as the code reads them. A field that
  the code reads through \<^verbatim>\<open>?.\<close> or defaults with \<^verbatim>\<open>??\<close> is an option, \<open>None\<close> standing for
  a missing (undefined or null) value. Numbers are the finite numbers that JSON can carry,
  modelled as rationals: on them the sign of a JavaScript subtraction is the sign of the
  exact difference, which is all that the comparators below use.

  A trading pair. \<open>baseAddress\<close> is \<^verbatim>\<open>p?.baseToken?.address\<close>, \<open>quoteSymbol\<close> is
  \<^verbatim>\<open>p?.quoteToken?.symbol\<close>, \<open>liquidityUsd\<close> is \<^verbatim>\<open>p?.liquidity?.usd\<close> and \<open>volumeH24\<close> is
  \<^verbatim>\<open>p?.volume?.h24\<close>. A null element of an array of pairs reads as a pair with every
  field missing, since each read of an element goes through \<^verbatim>\<open>?.\<close>.
\<close>

record DexPair =
  chainId :: "string option"
  pairAddress :: "string option"
  baseAddress :: "string option"
  quoteSymbol :: "string option"
  liquidityUsd :: "rat option"
  volumeH24 :: "rat option"

text \<open>
  The \<^verbatim>\<open>id\<close> of a coin is the one field that the code prints into a URL, where
  \<^verbatim>\<open>undefined\<close> and \<^verbatim>\<open>null\<close> print differently; it keeps the two apart.
\<close>

datatype js_id = NoId | NullId | IdStr string

text \<open>A coin of the aggregator's search response (\<^verbatim>\<open>id\<close>, \<^verbatim>\<open>symbol\<close>, \<^verbatim>\<open>market_cap_rank\<close>).\<close>

record SearchCoin =
  sc_id :: js_id
  sc_symbol :: "string option"
  sc_market_cap_rank :: "rat option"

text \<open>A row of the aggregator's markets response.\<close>

record Market =
  mk_id :: js_id
  mk_symbol :: "string option"
  mk_name :: "string option"
  current_price :: "rat option"
  market_cap :: "rat option"
  total_volume :: "rat option"
  market_cap_rank :: "rat option"

text \<open>
  The full profile of a coin: \<^verbatim>\<open>name\<close>, the three \<^verbatim>\<open>market_data.*.usd\<close> numbers,
  \<^verbatim>\<open>liquidity_score\<close> and the \<^verbatim>\<open>platforms\<close> object (chain name to address).
\<close>

record FullCoin =
  full_name :: "string option"
  md_current_price_usd :: "rat option"
  md_market_cap_usd :: "rat option"
  md_total_volume_usd :: "rat option"
  liquidity_score :: "rat option"
  platforms :: "(string \<rightharpoonup> string) option"

text \<open>
  The result of the market data client. Its symbol and its name can be upper-case forms,
  so they are lists of code units.
\<close>

record CoinInfo =
  ci_id :: js_id
  ci_symbol :: "nat list"
  ci_name :: "nat list"
  price :: rat
  marketCap :: rat
  volume24h :: rat
  liquidityScore :: "rat option"

section \<open>Failures, the network and the shared state\<close>

text \<open>
  What a rejected promise carries. \<open>HttpFailure st\<close> is the error of the HTTP client,
  \<open>st\<close> being \<^verbatim>\<open>e.response.status\<close> when there is a response; \<open>Thrown msg\<close> is
  \<^verbatim>\<open>new Error(msg)\<close>, the message in code units; \<open>TypeError\<close> is the error of reading a property of null or
  undefined, or of calling a method that a value does not have.
\<close>

datatype error = HttpFailure "nat option" | Thrown "nat list" | TypeError

text \<open>\<^verbatim>\<open>e?.response?.status\<close>\<close>

definition status_of :: "error \<Rightarrow> nat option" where
  "status_of e = (case e of HttpFailure st \<Rightarrow> st | Thrown msg \<Rightarrow> None | TypeError \<Rightarrow> None)"

text \<open>The requests that the code sends, one constructor for each URL.\<close>

datatype call =
    DexSearch string
  | DexPairGet string string
  | CgSearch string
  | CgMarkets string
  | CgCoin string

text \<open>
  The HTTP client (\<^verbatim>\<open>./http\<close>) is not part of the sources; it is a parameter. Each
  endpoint answers a request with a failure or with the part of the body that the code reads.
  The first argument is the number of requests sent before, so that an endpoint can answer
  the same request differently over time; \<open>latency\<close> is the time that the request takes.
\<close>

record net =
  dex_search_api :: "nat \<Rightarrow> string \<Rightarrow> error + DexPair list option"
  dex_pairs_api :: "nat \<Rightarrow> string \<Rightarrow> string \<Rightarrow> error + DexPair list option"
  cg_search_api :: "nat \<Rightarrow> string \<Rightarrow> error + SearchCoin option list option"
  cg_markets_api :: "nat \<Rightarrow> string \<Rightarrow> error + Market option list"
  cg_coin_api :: "nat \<Rightarrow> string \<Rightarrow> error + FullCoin option"
  latency :: "nat \<Rightarrow> int"

text \<open>The values that the shared cache holds.\<close>

datatype cval = VPairs "DexPair list" | VPair DexPair | VCoin CoinInfo

text \<open>
  The state that the services share: the clock (\<^verbatim>\<open>Date.now()\<close>), the store of
  \<^verbatim>\<open>sharedCache\<close> and the requests sent so far, in order.
\<close>

record world =
  clock :: int
  cache :: "cval cache_store"
  trace :: "call list"

text \<open>An asynchronous operation: it ends in a failure or a value, and changes the state.\<close>

type_synonym 'a io = "world \<Rightarrow> (error + 'a) \<times> world"

definition return_io :: "'a \<Rightarrow> 'a io" where
  "return_io x w = (Inr x, w)"

definition throw_io :: "error \<Rightarrow> 'a io" where
  "throw_io e w = (Inl e, w)"

definition bind_io :: "'a io \<Rightarrow> ('a \<Rightarrow> 'b io) \<Rightarrow> 'b io" where
  "bind_io m f w = (case m w of (Inl e, w1) \<Rightarrow> (Inl e, w1) | (Inr x, w1) \<Rightarrow> f x w1)"

text \<open>\<^verbatim>\<open>http.get\<close>: the request is recorded, the clock moves by its latency.\<close>

definition http_get :: "net \<Rightarrow> call \<Rightarrow> (nat \<Rightarrow> error + 'a) \<Rightarrow> 'a io" where
  "http_get nt c respond w =
     (let n = length (trace w)
      in (respond n, w\<lparr>clock := clock w + latency nt n, trace := trace w @ [c]\<rparr>))"

text \<open>\<^verbatim>\<open>sleep(ms)\<close>\<close>

definition sleep :: "int \<Rightarrow> unit io" where
  "sleep ms w = (Inr (), w\<lparr>clock := clock w + ms\<rparr>)"

section \<open>The compute-if-absent accessor of the cache\<close>

text \<open>
  \<^verbatim>\<open>TTLCache.with\<close> on the shared cache. The value \<open>None\<close> is \<^verbatim>\<open>undefined\<close>: a producer
  may resolve to it, and \<^verbatim>\<open>get\<close> returns it on a miss.
\<close>

definition cache_with :: "string \<Rightarrow> cval option io \<Rightarrow> int \<Rightarrow> cval option io" where
  "cache_with key fn ttlMs w =
     (let (cached, store1) = cache_get (clock w) key (cache w);
          w1 = w\<lparr>cache := store1\<rparr>
      in if cached \<noteq> None then (Inr cached, w1)
         else (case fn w1 of
                 (Inl e, w2) \<Rightarrow> (Inl e, w2)
               | (Inr fresh, w2) \<Rightarrow>
                   (Inr fresh, w2\<lparr>cache := cache_set (clock w2) key fresh ttlMs (cache w2)\<rparr>)))"

section \<open>Sorting\<close>

text \<open>
  \<^verbatim>\<open>Array.prototype.sort\<close> with a comparator is stable; for a consistent comparator its
  result is the stable insertion sort below: \<open>x\<close> moves behind \<open>y\<close> only when
  \<open>cmp x y > 0\<close>.
\<close>

fun insort_cmp :: "('a \<Rightarrow> 'a \<Rightarrow> rat) \<Rightarrow> 'a \<Rightarrow> 'a list \<Rightarrow> 'a list" where
  "insort_cmp cmp x [] = [x]"
| "insort_cmp cmp x (y # ys) = (if cmp x y > 0 then y # insort_cmp cmp x ys else x # y # ys)"

definition js_sort :: "('a \<Rightarrow> 'a \<Rightarrow> rat) \<Rightarrow> 'a list \<Rightarrow> 'a list" where
  "js_sort cmp xs = foldr (insort_cmp cmp) xs []"

text \<open>\<^verbatim>\<open>x ?? d\<close> on a number.\<close>

definition or_default :: "rat option \<Rightarrow> rat \<Rightarrow> rat" where
  "or_default x d = (case x of None \<Rightarrow> d | Some y \<Rightarrow> y)"

section \<open>DEX data client (src/services/dexscreener.ts)\<close>

text \<open>The comparator of \<^verbatim>\<open>searchDexPairs\<close>: liquidity descending, then 24h volume descending.\<close>

definition search_cmp :: "DexPair \<Rightarrow> DexPair \<Rightarrow> rat" where
  "search_cmp a b =
     (let d = or_default (liquidityUsd b) 0 - or_default (liquidityUsd a) 0
      in if d \<noteq> 0 then d else or_default (volumeH24 b) 0 - or_default (volumeH24 a) 0)"

definition searchDexPairs :: "net \<Rightarrow> string \<Rightarrow> nat \<Rightarrow> cval option io" where
  "searchDexPairs nt query limit =
     cache_with (''dex:search:'' @ toLowerCase query @ '':'' @ nat_to_string limit)
       (bind_io (http_get nt (DexSearch query) (\<lambda>n. dex_search_api nt n query))
          (\<lambda>data.
             let pairs = (case data of None \<Rightarrow> [] | Some ps \<Rightarrow> ps)
             in return_io (Some (VPairs (take limit (js_sort search_cmp pairs))))))
       60000"

definition getPairByChainAndAddress :: "net \<Rightarrow> string \<Rightarrow> string \<Rightarrow> cval option io" where
  "getPairByChainAndAddress nt chain pairAddr =
     cache_with (''dex:pair:'' @ chain @ '':'' @ pairAddr)
       (bind_io (http_get nt (DexPairGet chain pairAddr) (\<lambda>n. dex_pairs_api nt n chain pairAddr))
          (\<lambda>data.
             case (case data of None \<Rightarrow> [] | Some ps \<Rightarrow> ps) of
               [] \<Rightarrow> return_io None
             | p # _ \<Rightarrow> return_io (Some (VPair p))))
       60000"

section \<open>Contract resolver (services/resolver)\<close>

definition GOOD_QUOTES :: "string list" where
  "GOOD_QUOTES = [''USDC'', ''USDT'', ''WETH'', ''WBNB'', ''BUSD'', ''WBTC'']"

text \<open>
  \<^verbatim>\<open>SPECIAL_MAP[k]\<close>, with the \<^verbatim>\<open>address\<close> and the \<^verbatim>\<open>note\<close> of what is found. The object
  literal has two keys of its own; indexing it with the name of a property that every
  object inherits finds a function or an object that has neither an \<^verbatim>\<open>address\<close> nor a
  \<^verbatim>\<open>note\<close>.
\<close>

definition object_prototype_keys :: "string list" where
  "object_prototype_keys =
     [''constructor'', ''__proto__'', ''hasOwnProperty'', ''isPrototypeOf'',
      ''propertyIsEnumerable'', ''toLocaleString'', ''toString'', ''valueOf'',
      ''__defineGetter__'', ''__defineSetter__'', ''__lookupGetter__'', ''__lookupSetter__'']"

definition SPECIAL_MAP :: "string \<Rightarrow> (string option \<times> string option) option" where
  "SPECIAL_MAP k =
     (if k = ''eth'' then
        Some (Some ''0xC02aaA39b223FE8D0A0e5C4F27eAD9083C756Cc2'', Some ''Mapped to WETH (Ethereum)'')
      else if k = ''btc'' then
        Some (Some ''0x2260FAC5E5542a773Aa44fBCfeDf7C193bc2C599'', Some ''Mapped to WBTC (Ethereum)'')
      else if k \<in> set object_prototype_keys then Some (None, None)
      else None)"

text \<open>
  The result of a resolution. \<open>source\<close> is one of the four strings of the type
  \<^verbatim>\<open>"dex" | "pair" | "coingecko" | "special"\<close>; a missing \<open>address\<close> or note is
  \<^verbatim>\<open>undefined\<close>. The field \<^verbatim>\<open>note\<close> is named \<open>note_r\<close>, \<open>note\<close> being a keyword.
\<close>

record ResolveResult =
  address :: "string option"
  source :: string
  note_r :: "string option"

text \<open>The filter \<^verbatim>\<open>p?.baseToken?.address && isAddress(p.baseToken.address)\<close>.\<close>

definition usable_base :: "DexPair \<Rightarrow> bool" where
  "usable_base p = (case baseAddress p of None \<Rightarrow> False | Some a \<Rightarrow> a \<noteq> [] \<and> isAddress a)"

text \<open>\<^verbatim>\<open>GOOD_QUOTES.has((p?.quoteToken?.symbol || "").toUpperCase()) ? 1 : 0\<close>\<close>

definition quote_score :: "DexPair \<Rightarrow> rat" where
  "quote_score p =
     (if toUpperCase (case quoteSymbol p of None \<Rightarrow> [] | Some s \<Rightarrow> s)
          \<in> set (map units_of GOOD_QUOTES)
      then 1 else 0)"

text \<open>The comparator of the resolver: \<^verbatim>\<open>qb - qa || liquidity(b) - liquidity(a)\<close>.\<close>

definition resolver_cmp :: "DexPair \<Rightarrow> DexPair \<Rightarrow> rat" where
  "resolver_cmp a b =
     (let qa = quote_score a; qb = quote_score b
      in if qb - qa \<noteq> 0 then qb - qa
         else or_default (liquidityUsd b) 0 - or_default (liquidityUsd a) 0)"

text \<open>\<^verbatim>\<open>try { ... } catch {}\<close> around an operation that yields an address or nothing.\<close>

definition swallow :: "'a option io \<Rightarrow> 'a option io" where
  "swallow m w = (case m w of (Inl e, w1) \<Rightarrow> (Inr None, w1) | (Inr r, w1) \<Rightarrow> (Inr r, w1))"

text \<open>\<^verbatim>\<open>detail?.baseToken?.address\<close> of what \<^verbatim>\<open>getPairByChainAndAddress\<close> resolved to.\<close>

definition detail_base_address :: "cval option \<Rightarrow> string option" where
  "detail_base_address detail = (case detail of Some (VPair p) \<Rightarrow> baseAddress p | _ \<Rightarrow> None)"

text \<open>
  Stage 2, the loop over the raw search results. It yields the first valid base address
  that a pair detail shows, or nothing; a failed detail fetch moves on to the next pair.
\<close>

fun pair_detail_loop :: "net \<Rightarrow> DexPair list \<Rightarrow> world \<Rightarrow> (error + string option) \<times> world" where
  "pair_detail_loop nt [] w = (Inr None, w)"
| "pair_detail_loop nt (p # ps) w =
     (case (pairAddress p, chainId p) of
        (Some pa, Some ch) \<Rightarrow>
          if pa \<noteq> [] \<and> ch \<noteq> [] then
            (case getPairByChainAndAddress nt ch pa w of
               (Inl e, w1) \<Rightarrow> pair_detail_loop nt ps w1
             | (Inr detail, w1) \<Rightarrow>
                 (case detail_base_address detail of
                    Some addr \<Rightarrow>
                      if addr \<noteq> [] \<and> isAddress addr then (Inr (Some addr), w1)
                      else pair_detail_loop nt ps w1
                  | None \<Rightarrow> pair_detail_loop nt ps w1))
          else pair_detail_loop nt ps w
      | _ \<Rightarrow> pair_detail_loop nt ps w)"

text \<open>\<^verbatim>\<open>c?.market_cap_rank ?? 1e9\<close> on an element of the search response.\<close>

definition sc_rank :: "SearchCoin option \<Rightarrow> rat" where
  "sc_rank c = (case c of None \<Rightarrow> 1000000000 | Some x \<Rightarrow> or_default (sc_market_cap_rank x) 1000000000)"

definition sc_rank_cmp :: "SearchCoin option \<Rightarrow> SearchCoin option \<Rightarrow> rat" where
  "sc_rank_cmp a b = sc_rank a - sc_rank b"

text \<open>An id inside a template string.\<close>

definition id_text :: "js_id \<Rightarrow> string" where
  "id_text i = (case i of NoId \<Rightarrow> ''undefined'' | NullId \<Rightarrow> ''null'' | IdStr s \<Rightarrow> s)"

definition PLATFORM_ORDER :: "string list" where
  "PLATFORM_ORDER =
     [''ethereum'', ''bsc'', ''polygon_pos'', ''arbitrum_one'', ''avalanche'', ''base'',
      ''optimism'', ''fantom'']"

text \<open>Stage 3: the aggregator's search, then the platforms of the best-ranked coin.\<close>

definition coingecko_stage :: "net \<Rightarrow> string \<Rightarrow> string option io" where
  "coingecko_stage nt q =
     swallow
       (bind_io (http_get nt (CgSearch q) (\<lambda>n. cg_search_api nt n q))
          (\<lambda>search.
             let coins = (case search of None \<Rightarrow> [] | Some cs \<Rightarrow> cs)
             in case js_sort sc_rank_cmp coins of
                  [] \<Rightarrow> return_io None
                | c0 # _ \<Rightarrow>
                    (case c0 of
                       None \<Rightarrow> throw_io TypeError
                     | Some t \<Rightarrow>
                         bind_io (http_get nt (CgCoin (id_text (sc_id t)))
                                    (\<lambda>n. cg_coin_api nt n (id_text (sc_id t))))
                           (\<lambda>full.
                              let pf = (case full of
                                          None \<Rightarrow> Map.empty
                                        | Some f \<Rightarrow> (case platforms f of
                                                       None \<Rightarrow> Map.empty
                                                     | Some m \<Rightarrow> m));
                                  candidates = filter (\<lambda>a. a \<noteq> [])
                                                 (List.map_filter pf PLATFORM_ORDER)
                              in return_io (List.find isAddress candidates)))))"

definition resolveContractFromQuery :: "net \<Rightarrow> string \<Rightarrow> ResolveResult option io" where
  "resolveContractFromQuery nt query =
     (let q = toLowerCase (js_trim query)
      in if isAddress q then
           return_io (Some \<lparr>address = Some q, source = ''dex'', note_r = None\<rparr>)
         else
           bind_io (searchDexPairs nt q 8)
             (\<lambda>found.
                case found of
                  Some (VPairs pairs) \<Rightarrow>
                    (case js_sort resolver_cmp (filter usable_base pairs) of
                       best # _ \<Rightarrow>
                         return_io (Some \<lparr>address = baseAddress best, source = ''dex'', note_r = None\<rparr>)
                     | [] \<Rightarrow>
                         bind_io (pair_detail_loop nt pairs)
                           (\<lambda>r2.
                              case r2 of
                                Some addr \<Rightarrow>
                                  return_io (Some \<lparr>address = Some addr, source = ''pair'', note_r = None\<rparr>)
                              | None \<Rightarrow>
                                  bind_io (coingecko_stage nt q)
                                    (\<lambda>r3.
                                       case r3 of
                                         Some evm \<Rightarrow>
                                           return_io (Some \<lparr>address = Some evm,
                                                             source = ''coingecko'', note_r = None\<rparr>)
                                       | None \<Rightarrow>
                                           (case SPECIAL_MAP q of
                                              Some (a, n) \<Rightarrow>
                                                return_io (Some \<lparr>address = a, source = ''special'',
                                                                  note_r = n\<rparr>)
                                            | None \<Rightarrow> return_io None))))
                | _ \<Rightarrow> throw_io TypeError))"

text \<open>Whether a stage of the resolver came back with an address.\<close>

definition found_address :: "(error + string option) \<Rightarrow> bool" where
  "found_address r = (case r of Inr (Some a) \<Rightarrow> True | _ \<Rightarrow> False)"

section \<open>Market data client (src/services/coingecko.ts)\<close>

text \<open>\<^verbatim>\<open>m.market_cap_rank ?? 1e9\<close> on a row of the markets response.\<close>

definition mk_rank :: "Market \<Rightarrow> rat" where
  "mk_rank m = or_default (market_cap_rank m) 1000000000"

definition mk_rank_cmp :: "Market \<Rightarrow> Market \<Rightarrow> rat" where
  "mk_rank_cmp a b = mk_rank a - mk_rank b"

text \<open>\<^verbatim>\<open>coins.filter(Boolean)\<close> drops the null rows; \<open>None\<close> is the \<^verbatim>\<open>undefined\<close> of \<^verbatim>\<open>[][0]\<close>.\<close>

definition pickBestByMarketCap :: "Market option list \<Rightarrow> Market option" where
  "pickBestByMarketCap coins =
     (case js_sort mk_rank_cmp (List.map_filter (\<lambda>c. c) coins) of
        [] \<Rightarrow> None
      | m # _ \<Rightarrow> Some m)"

text \<open>The filter \<^verbatim>\<open>c?.symbol?.toLowerCase() === sym\<close> (\<open>symb\<close> is the \<^verbatim>\<open>sym\<close> of the source).\<close>

definition exact_symbol :: "string \<Rightarrow> SearchCoin option \<Rightarrow> bool" where
  "exact_symbol symb c =
     (case c of
        None \<Rightarrow> False
      | Some x \<Rightarrow> (case sc_symbol x of None \<Rightarrow> False | Some s \<Rightarrow> toLowerCase s = symb))"

text \<open>
  \<^verbatim>\<open>candidates.map((c) => c.id)\<close>: reading the id of a null element is a TypeError (\<open>None\<close>).
\<close>

fun ids_of :: "SearchCoin option list \<Rightarrow> js_id list option" where
  "ids_of [] = Some []"
| "ids_of (None # cs) = None"
| "ids_of (Some c # cs) = (case ids_of cs of None \<Rightarrow> None | Some ids \<Rightarrow> Some (sc_id c # ids))"

text \<open>\<^verbatim>\<open>join(',')\<close>: an undefined or null id prints as the empty string.\<close>

definition join_text :: "js_id \<Rightarrow> string" where
  "join_text i = (case i of NoId \<Rightarrow> [] | NullId \<Rightarrow> [] | IdStr s \<Rightarrow> s)"

fun join_ids :: "js_id list \<Rightarrow> string" where
  "join_ids [] = []"
| "join_ids [i] = join_text i"
| "join_ids (i # j # r) = join_text i @ '','' @ join_ids (j # r)"

text \<open>One attempt of the live fetch: search, markets of the top five, full profile.\<close>

definition doFetch :: "net \<Rightarrow> string \<Rightarrow> CoinInfo io" where
  "doFetch nt symb =
     bind_io (http_get nt (CgSearch symb) (\<lambda>n. cg_search_api nt n symb))
       (\<lambda>search.
          let coins = (case search of None \<Rightarrow> [] | Some cs \<Rightarrow> cs);
              exact = filter (exact_symbol symb) coins;
              candidates = (if exact \<noteq> [] then exact else coins)
          in if candidates = [] then
               throw_io (Thrown (units_of ''Symbol $'' @ toUpperCase symb
                                 @ units_of '' not found on CoinGecko''))
             else
               (case ids_of (take 5 candidates) of
                  None \<Rightarrow> throw_io TypeError
                | Some ids \<Rightarrow>
                    bind_io (http_get nt (CgMarkets (join_ids ids))
                               (\<lambda>n. cg_markets_api nt n (join_ids ids)))
                      (\<lambda>markets.
                         case pickBestByMarketCap markets of
                           None \<Rightarrow> throw_io (Thrown (units_of ''No market data for $''
                                                     @ toUpperCase symb))
                         | Some best \<Rightarrow>
                             bind_io (http_get nt (CgCoin (id_text (mk_id best)))
                                        (\<lambda>n. cg_coin_api nt n (id_text (mk_id best))))
                               (\<lambda>full.
                                  return_io
                                    \<lparr>ci_id = mk_id best,
                                     ci_symbol = toUpperCase (case mk_symbol best of
                                                                None \<Rightarrow> [] | Some s \<Rightarrow> s),
                                     ci_name =
                                       (case mk_name best of
                                          Some n \<Rightarrow> units_of n
                                        | None \<Rightarrow>
                                            (case (case full of
                                                     None \<Rightarrow> None
                                                   | Some f \<Rightarrow> full_name f) of
                                               Some n \<Rightarrow> units_of n
                                             | None \<Rightarrow> toUpperCase symb)),
                                     price =
                                       or_default (current_price best)
                                         (or_default (case full of
                                                        None \<Rightarrow> None
                                                      | Some f \<Rightarrow> md_current_price_usd f) 0),
                                     marketCap =
                                       or_default (market_cap best)
                                         (or_default (case full of
                                                        None \<Rightarrow> None
                                                      | Some f \<Rightarrow> md_market_cap_usd f) 0),
                                     volume24h =
                                       or_default (total_volume best)
                                         (or_default (case full of
                                                        None \<Rightarrow> None
                                                      | Some f \<Rightarrow> md_total_volume_usd f) 0),
                                     liquidityScore =
                                       (case full of
                                          None \<Rightarrow> None
                                        | Some f \<Rightarrow> liquidity_score f)\<rparr>))))"

text \<open>\<^verbatim>\<open>status === 429 || (status && status >= 500)\<close> on \<^verbatim>\<open>e?.response?.status\<close>.\<close>

definition retryable :: "error \<Rightarrow> bool" where
  "retryable e =
     (case status_of e of
        None \<Rightarrow> False
      | Some st \<Rightarrow> st = 429 \<or> (st \<noteq> 0 \<and> st \<ge> 500))"

definition fetchFromCoinGecko :: "net \<Rightarrow> string \<Rightarrow> CoinInfo io" where
  "fetchFromCoinGecko nt symb w =
     (case doFetch nt symb w of
        (Inr value, w1) \<Rightarrow> (Inr value, w1)
      | (Inl e, w1) \<Rightarrow>
          if retryable e then bind_io (sleep 400) (\<lambda>u. doFetch nt symb) w1
          else (Inl e, w1))"

text \<open>The number of search requests in a trace: one for each attempt of the live fetch.\<close>

definition search_calls :: "call list \<Rightarrow> nat" where
  "search_calls tr = length (filter (\<lambda>c. case c of CgSearch q \<Rightarrow> True | _ \<Rightarrow> False) tr)"

text \<open>The elements of a response array that are not null.\<close>

definition non_null :: "'a option list \<Rightarrow> 'a list" where
  "non_null xs = List.map_filter (\<lambda>c. c) xs"

section \<open>Example environments\<close>

text \<open>A start state with an empty cache and no request sent.\<close>

definition world0 :: world where
  "world0 = \<lparr>clock = 1000000, cache = Map.empty, trace = []\<rparr>"

text \<open>A network where every request fails without a response.\<close>

definition net_down :: net where
  "net_down =
     \<lparr>dex_search_api = (\<lambda>n q. Inl (HttpFailure None)),
      dex_pairs_api = (\<lambda>n c a. Inl (HttpFailure None)),
      cg_search_api = (\<lambda>n q. Inl (HttpFailure None)),
      cg_markets_api = (\<lambda>n ids. Inl (HttpFailure None)),
      cg_coin_api = (\<lambda>n i. Inl (HttpFailure None)),
      latency = (\<lambda>n. 0)\<rparr>"

text \<open>
  A network where the DEX service answers every search and every pair lookup with no
  pairs, and the aggregator fails with status 500.
\<close>

definition net_quiet :: net where
  "net_quiet =
     \<lparr>dex_search_api = (\<lambda>n q. Inr (Some [])),
      dex_pairs_api = (\<lambda>n c a. Inr (Some [])),
      cg_search_api = (\<lambda>n q. Inl (HttpFailure (Some 500))),
      cg_markets_api = (\<lambda>n ids. Inl (HttpFailure (Some 500))),
      cg_coin_api = (\<lambda>n i. Inl (HttpFailure (Some 500))),
      latency = (\<lambda>n. 5)\<rparr>"

text \<open>
  Two pairs for the DEX search: the first has the unrecognised quote XYZ and a liquidity of
  5000000, the second the quote USDC and a liquidity of 1000.
\<close>

definition pair_xyz :: DexPair where
  "pair_xyz =
     \<lparr>chainId = Some ''ethereum'', pairAddress = Some ''0xpair1'',
      baseAddress = Some ''0x1111111111111111111111111111111111111111'',
      quoteSymbol = Some ''XYZ'', liquidityUsd = Some 5000000, volumeH24 = Some 10\<rparr>"

definition pair_usdc :: DexPair where
  "pair_usdc =
     \<lparr>chainId = Some ''ethereum'', pairAddress = Some ''0xpair2'',
      baseAddress = Some ''0x2222222222222222222222222222222222222222'',
      quoteSymbol = Some ''USDC'', liquidityUsd = Some 1000, volumeH24 = Some 10\<rparr>"

definition net_two_pairs :: net where
  "net_two_pairs = net_down\<lparr>dex_search_api := (\<lambda>n q. Inr (Some [pair_xyz, pair_usdc]))\<rparr>"

text \<open>
  An aggregator whose first request fails with status 429 and that answers afterwards: the
  search finds an exact match and two fuzzy matches for \<open>btc\<close>.
\<close>

definition coin_btc :: SearchCoin where
  "coin_btc = \<lparr>sc_id = IdStr ''bitcoin'', sc_symbol = Some ''BTC'', sc_market_cap_rank = Some 1\<rparr>"

definition coin_wbtc :: SearchCoin where
  "coin_wbtc = \<lparr>sc_id = IdStr ''wrapped-bitcoin'', sc_symbol = Some ''WBTC'',
                sc_market_cap_rank = Some 15\<rparr>"

definition coin_btcb :: SearchCoin where
  "coin_btcb = \<lparr>sc_id = IdStr ''bitcoin-bep2'', sc_symbol = Some ''btcb'',
                sc_market_cap_rank = None\<rparr>"

definition market_btc :: Market where
  "market_btc =
     \<lparr>mk_id = IdStr ''bitcoin'', mk_symbol = Some ''btc'', mk_name = Some ''Bitcoin'',
      current_price = Some 60000, market_cap = Some 1200000000000,
      total_volume = Some 30000000000, market_cap_rank = Some 1\<rparr>"

definition net_flaky :: net where
  "net_flaky =
     \<lparr>dex_search_api = (\<lambda>n q. Inl (HttpFailure None)),
      dex_pairs_api = (\<lambda>n c a. Inl (HttpFailure None)),
      cg_search_api = (\<lambda>n q. if n = 0 then Inl (HttpFailure (Some 429))
                              else Inr (Some [Some coin_wbtc, Some coin_btc, Some coin_btcb])),
      cg_markets_api = (\<lambda>n ids. if ids = ''bitcoin'' then Inr [Some market_btc] else Inr []),
      cg_coin_api = (\<lambda>n i. Inr None),
      latency = (\<lambda>n. 20)\<rparr>"



section \<open>Properties of the TTL cache\<close>

text \<open>
  C7. A value stored with \<open>cache_set\<close> at time \<open>s\<close> with time-to-live \<open>t\<close> is returned by
  every \<open>cache_get\<close> at a time \<open>n \<le> s + t\<close>, and such a read leaves the store as it is (so
  any number of reads within the time-to-live return it); a \<open>cache_get\<close> at a time
  \<open>n > s + t\<close> returns absent and removes the entry. A read that returns a value
  has found an entry whose expiry instant is not before the time of the read.
\<close>

theorem ttl_cache_get_after_set:
  "(n \<le> s + t \<longrightarrow>
      cache_get n k (cache_set s k x t store) = (x, cache_set s k x t store))
   \<and> (s + t < n \<longrightarrow>
      cache_get n k (cache_set s k x t store) = (None, (cache_set s k x t store)(k := None))
      \<and> snd (cache_get n k (cache_set s k x t store)) k = None)
   \<and> (\<forall>st y. fst (cache_get n k st) = Some y \<longrightarrow>
        (\<exists>e. st k = Some e \<and> val e = Some y \<and> n \<le> expires e))"
  by (auto simp: cache_get_def cache_set_def split: option.splits if_splits)

theorem ttl_cache_get_after_set_witness:
  "cache_get 1500 ''k'' (cache_set 1000 ''k'' (Some (7::nat)) 500 Map.empty)
     = (Some 7, cache_set 1000 ''k'' (Some 7) 500 Map.empty)
   \<and> fst (cache_get 1501 ''k'' (cache_set 1000 ''k'' (Some (7::nat)) 500 Map.empty)) = None
   \<and> snd (cache_get 1501 ''k'' (cache_set 1000 ''k'' (Some (7::nat)) 500 Map.empty)) ''k'' = None
   \<and> (\<exists>e. cache_set 1000 ''k'' (Some (7::nat)) 500 Map.empty ''k'' = Some e
          \<and> val e = Some 7 \<and> 1500 \<le> expires e)"
proof -
  have a: "(1500::int) \<le> 1000 + 500" and b: "(1000::int) + 500 < 1501" by simp_all
  note t1 = ttl_cache_get_after_set [of 1500 1000 500 "''k''" "Some (7::nat)" Map.empty]
  note t2 = ttl_cache_get_after_set [of 1501 1000 500 "''k''" "Some (7::nat)" Map.empty]
  from t1 a have g1: "cache_get 1500 ''k'' (cache_set 1000 ''k'' (Some (7::nat)) 500 Map.empty)
     = (Some 7, cache_set 1000 ''k'' (Some 7) 500 Map.empty)" by blast
  from t2 b have g2: "cache_get 1501 ''k'' (cache_set 1000 ''k'' (Some (7::nat)) 500 Map.empty)
     = (None, (cache_set 1000 ''k'' (Some 7) 500 Map.empty)(''k'' := None))" by blast
  from t1 g1 have g3: "\<exists>e. cache_set 1000 ''k'' (Some (7::nat)) 500 Map.empty ''k'' = Some e
          \<and> val e = Some 7 \<and> 1500 \<le> expires e"
    by (metis fst_conv)
  show ?thesis using g1 g2 g3 by simp
qed

section \<open>Properties of the callback store\<close>

text \<open>
  C8. A payload stored by \<open>putPayload\<close> at time \<open>s\<close> with time-to-live \<open>ttl\<close> is returned
  by the first \<open>takePayload\<close> of its identifier at any time \<open>n \<le> s + ttl\<close>; that call
  deletes the entry, and a second \<open>takePayload\<close> of the identifier, at any time, returns
  absent.
\<close>

theorem callback_payload_one_shot:
  assumes "n \<le> s + ttl"
  shows "fst (takePayload n (fst (putPayload draws s0 s p ttl st)) (snd (putPayload draws s0 s p ttl st)))
           = Some p
    \<and> snd (takePayload n (fst (putPayload draws s0 s p ttl st)) (snd (putPayload draws s0 s p ttl st)))
        (fst (putPayload draws s0 s p ttl st)) = None
    \<and> fst (takePayload n' (fst (putPayload draws s0 s p ttl st))
             (snd (takePayload n (fst (putPayload draws s0 s p ttl st))
                    (snd (putPayload draws s0 s p ttl st))))) = None"
  using assms by (simp add: takePayload_def putPayload_def gc_def Let_def)

theorem callback_payload_one_shot_witness:
  "(1200::int) \<le> 1000 + 300
   \<and> fst (takePayload 1200 (fst (putPayload [0, 1, 2, 3, 4, 5, 6, 7, 8, 9, 10, 11] 999 1000 (42::nat) 300 Map.empty))
        (snd (putPayload [0, 1, 2, 3, 4, 5, 6, 7, 8, 9, 10, 11] 999 1000 (42::nat) 300 Map.empty)))
      = Some 42
   \<and> fst (takePayload 1250 (fst (putPayload [0, 1, 2, 3, 4, 5, 6, 7, 8, 9, 10, 11] 999 1000 (42::nat) 300 Map.empty))
        (snd (takePayload 1200 (fst (putPayload [0, 1, 2, 3, 4, 5, 6, 7, 8, 9, 10, 11] 999 1000 (42::nat) 300 Map.empty))
               (snd (putPayload [0, 1, 2, 3, 4, 5, 6, 7, 8, 9, 10, 11] 999 1000 (42::nat) 300 Map.empty)))))
      = None
   \<and> fst (putPayload [0, 1, 2, 3, 4, 5, 6, 7, 8, 9, 10, 11] 999 1000 (42::nat) 300 Map.empty) = ''abcdefghijkl''"
proof -
  have h: "(1200::int) \<le> 1000 + 300" by simp
  have i: "fst (putPayload [0, 1, 2, 3, 4, 5, 6, 7, 8, 9, 10, 11] 999 1000 (42::nat) 300 Map.empty) = ''abcdefghijkl''"
    by (simp add: putPayload_def randomId_def id_chars_def Let_def)
  show ?thesis
    using callback_payload_one_shot [OF h, of "[0, 1, 2, 3, 4, 5, 6, 7, 8, 9, 10, 11]" 999 "42::nat" Map.empty 1250] h i
    by simp
qed

section \<open>Properties of the rate governor\<close>

lemma refill_lastHit [simp]: "lastHit (refill now b) = lastHit b"
  by (simp add: refill_def Let_def)

lemma refill_tokens_lower: "tokens b \<le> 5 \<Longrightarrow> tokens b \<le> tokens (refill now b)"
  by (simp add: refill_def Let_def CAPACITY_def)

lemma refill_tokens_upper: "tokens b \<le> 5 \<Longrightarrow> tokens (refill now b) \<le> 5"
  by (simp add: refill_def Let_def CAPACITY_def)

lemma refill_last_mono: "last_t b \<le> last_t (refill now b)"
  by (simp add: refill_def Let_def)

lemma refill_idle: "now - last_t b < 6000 \<Longrightarrow> refill now b = b"
  by (simp add: refill_def Let_def REFILL_MS_def)

lemma refill_one:
  assumes "6000 \<le> now - last_t b" "now - last_t b < 12000"
  shows "refill now b = b\<lparr>tokens := min 5 (tokens b + 1), last_t := now\<rparr>"
proof -
  have "(now - last_t b) div 6000 = 1" using assms by simp
  then show ?thesis using assms by (simp add: refill_def Let_def REFILL_MS_def CAPACITY_def)
qed

lemma limiter_fresh:
  assumes "c \<noteq> 0" "bs c = None" "900 \<le> now"
  shows "rateLimiter (Some c) now bs
           = (Next, bs(c \<mapsto> \<lparr>tokens = 4, last_t = now, lastHit = now\<rparr>))"
  using assms by (simp add: rateLimiter_def refill_def Let_def CAPACITY_def MIN_GAP_MS_def)

lemma limiter_admit:
  assumes "c \<noteq> 0" "bs c = Some b" "900 \<le> now - lastHit b" "0 < tokens (refill now b)"
  shows "rateLimiter (Some c) now bs
           = (Next, bs(c \<mapsto> (refill now b)\<lparr>tokens := tokens (refill now b) - 1, lastHit := now\<rparr>))"
  using assms by (simp add: rateLimiter_def Let_def MIN_GAP_MS_def)

lemma limiter_gap:
  assumes "c \<noteq> 0" "bs c = Some b" "now - lastHit b < 900"
  shows "rateLimiter (Some c) now bs = (SlowDown, bs(c \<mapsto> refill now b))"
  using assms by (simp add: rateLimiter_def Let_def MIN_GAP_MS_def)

lemma limiter_empty:
  assumes "c \<noteq> 0" "bs c = Some b" "900 \<le> now - lastHit b" "tokens (refill now b) \<le> 0"
  shows "\<exists>secs. rateLimiter (Some c) now bs = (TooMany secs, bs(c \<mapsto> refill now b))"
  using assms by (simp add: rateLimiter_def Let_def MIN_GAP_MS_def)

lemma limiter_denied:
  assumes "c \<noteq> 0" "bs c = Some b" "tokens (refill now b) \<le> 0"
  shows "\<not> admitted (fst (rateLimiter (Some c) now bs))
         \<and> snd (rateLimiter (Some c) now bs) = bs(c \<mapsto> refill now b)"
  using assms by (simp add: rateLimiter_def Let_def admitted_def)

lemma admissions_step:
  "rateLimiter chat now bs = (r, bs1) \<Longrightarrow>
   admissions ((chat, now) # cs) bs = (r # fst (admissions cs bs1), snd (admissions cs bs1))"
  by (simp add: case_prod_beta)

lemma limiter_spaced:
  assumes "c \<noteq> 0" "bs c = Some b" "900 \<le> now - lastHit b" "1 \<le> tokens b" "tokens b \<le> 5"
  shows "\<exists>b'. rateLimiter (Some c) now bs = (Next, bs(c \<mapsto> b'))
              \<and> tokens b - 1 \<le> tokens b' \<and> tokens b' \<le> 5 \<and> lastHit b' = now"
proof -
  have "0 < tokens (refill now b)" using refill_tokens_lower [of b now] assms by linarith
  then have "rateLimiter (Some c) now bs
      = (Next, bs(c \<mapsto> (refill now b)\<lparr>tokens := tokens (refill now b) - 1, lastHit := now\<rparr>))"
    using limiter_admit [of c bs b now] assms by simp
  moreover have "tokens b - 1 \<le> tokens (refill now b) - 1" "tokens (refill now b) - 1 \<le> 5"
    using refill_tokens_lower [of b now] refill_tokens_upper [of b now] assms by simp_all
  ultimately show ?thesis
    by (intro exI [of _ "(refill now b)\<lparr>tokens := tokens (refill now b) - 1, lastHit := now\<rparr>"]) simp
qed

lemma five_spaced_admitted:
  assumes c: "c \<noteq> 0" and fresh: "bs c = None" and t1: "900 \<le> t1"
    and sp: "t1 + 900 \<le> t2" "t2 + 900 \<le> t3" "t3 + 900 \<le> t4" "t4 + 900 \<le> t5"
  shows "map admitted (fst (admissions
            [(Some c, t1), (Some c, t2), (Some c, t3), (Some c, t4), (Some c, t5)] bs))
         = [True, True, True, True, True]"
proof -
  let ?b1 = "\<lparr>tokens = 4, last_t = t1, lastHit = t1\<rparr>"
  have s1: "rateLimiter (Some c) t1 bs = (Next, bs(c \<mapsto> ?b1))"
    using limiter_fresh [of c bs t1] c fresh t1 by simp
  obtain b2 where s2: "rateLimiter (Some c) t2 (bs(c \<mapsto> ?b1)) = (Next, bs(c \<mapsto> b2))"
    and b2: "3 \<le> tokens b2" "tokens b2 \<le> 5" "lastHit b2 = t2"
    using limiter_spaced [of c "bs(c \<mapsto> ?b1)" ?b1 t2] c sp by auto
  obtain b3 where s3: "rateLimiter (Some c) t3 (bs(c \<mapsto> b2)) = (Next, bs(c \<mapsto> b3))"
    and b3: "2 \<le> tokens b3" "tokens b3 \<le> 5" "lastHit b3 = t3"
    using limiter_spaced [of c "bs(c \<mapsto> b2)" b2 t3] c sp b2 by auto
  obtain b4 where s4: "rateLimiter (Some c) t4 (bs(c \<mapsto> b3)) = (Next, bs(c \<mapsto> b4))"
    and b4: "1 \<le> tokens b4" "tokens b4 \<le> 5" "lastHit b4 = t4"
    using limiter_spaced [of c "bs(c \<mapsto> b3)" b3 t4] c sp b3 by auto
  obtain b5 where s5: "rateLimiter (Some c) t5 (bs(c \<mapsto> b4)) = (Next, bs(c \<mapsto> b5))"
    using limiter_spaced [of c "bs(c \<mapsto> b4)" b4 t5] c sp b4 by auto
  show ?thesis
    by (simp add: admissions_step [OF s1] admissions_step [OF s2] admissions_step [OF s3]
          admissions_step [OF s4] admissions_step [OF s5] admitted_def del: admissions.simps(2))
qed

lemma window_scenario:
  assumes c: "c \<noteq> 0" and fresh: "bs c = None" and t1: "900 \<le> t1"
    and sp: "t1 + 900 \<le> t2" "t2 + 900 \<le> t3" "t3 + 900 \<le> t4" "t4 + 900 \<le> t5"
    and t6: "t5 \<le> t6" "t6 < t1 + 6000"
    and t7: "t6 + 6000 \<le> t7" "t7 < t1 + 12000"
    and t8: "t7 \<le> t8" "t8 < t7 + 6000"
  shows "map admitted (fst (admissions
            [(Some c, t1), (Some c, t2), (Some c, t3), (Some c, t4), (Some c, t5),
             (Some c, t6), (Some c, t7), (Some c, t8)] bs))
         = [True, True, True, True, True, False, True, False]"
proof -
  let ?b = "\<lambda>k t. \<lparr>tokens = k, last_t = t1, lastHit = t\<rparr>"
  let ?b7 = "\<lparr>tokens = 0, last_t = t7, lastHit = t7\<rparr>"
  have s1: "rateLimiter (Some c) t1 bs = (Next, bs(c \<mapsto> ?b 4 t1))"
    using limiter_fresh [of c bs t1] c fresh t1 by simp
  have s2: "rateLimiter (Some c) t2 (bs(c \<mapsto> ?b 4 t1)) = (Next, bs(c \<mapsto> ?b 3 t2))"
    using limiter_admit [of c "bs(c \<mapsto> ?b 4 t1)" "?b 4 t1" t2] refill_idle [of t2 "?b 4 t1"]
      c sp t6 by simp
  have s3: "rateLimiter (Some c) t3 (bs(c \<mapsto> ?b 3 t2)) = (Next, bs(c \<mapsto> ?b 2 t3))"
    using limiter_admit [of c "bs(c \<mapsto> ?b 3 t2)" "?b 3 t2" t3] refill_idle [of t3 "?b 3 t2"]
      c sp t6 by simp
  have s4: "rateLimiter (Some c) t4 (bs(c \<mapsto> ?b 2 t3)) = (Next, bs(c \<mapsto> ?b 1 t4))"
    using limiter_admit [of c "bs(c \<mapsto> ?b 2 t3)" "?b 2 t3" t4] refill_idle [of t4 "?b 2 t3"]
      c sp t6 by simp
  have s5: "rateLimiter (Some c) t5 (bs(c \<mapsto> ?b 1 t4)) = (Next, bs(c \<mapsto> ?b 0 t5))"
    using limiter_admit [of c "bs(c \<mapsto> ?b 1 t4)" "?b 1 t4" t5] refill_idle [of t5 "?b 1 t4"]
      c sp t6 by simp
  have s6: "\<not> admitted (fst (rateLimiter (Some c) t6 (bs(c \<mapsto> ?b 0 t5))))
            \<and> snd (rateLimiter (Some c) t6 (bs(c \<mapsto> ?b 0 t5))) = bs(c \<mapsto> ?b 0 t5)"
    using limiter_denied [of c "bs(c \<mapsto> ?b 0 t5)" "?b 0 t5" t6] refill_idle [of t6 "?b 0 t5"]
      c sp t6 by simp
  have r7: "refill t7 (?b 0 t5) = \<lparr>tokens = 1, last_t = t7, lastHit = t5\<rparr>"
    using refill_one [of t7 "?b 0 t5"] sp t6 t7 by simp
  have s7: "rateLimiter (Some c) t7 (bs(c \<mapsto> ?b 0 t5)) = (Next, bs(c \<mapsto> ?b7))"
    using limiter_admit [of c "bs(c \<mapsto> ?b 0 t5)" "?b 0 t5" t7] r7 c sp t6 t7 by simp
  have s8: "\<not> admitted (fst (rateLimiter (Some c) t8 (bs(c \<mapsto> ?b7))))"
    using limiter_denied [of c "bs(c \<mapsto> ?b7)" ?b7 t8] refill_idle [of t8 ?b7] c t8 by simp
  obtain r6 where e6: "rateLimiter (Some c) t6 (bs(c \<mapsto> ?b 0 t5)) = (r6, bs(c \<mapsto> ?b 0 t5))"
    and n6: "\<not> admitted r6"
    using s6 by (metis prod.collapse)
  obtain r8 bs8 where e8: "rateLimiter (Some c) t8 (bs(c \<mapsto> ?b7)) = (r8, bs8)"
    and n8: "\<not> admitted r8"
    using s8 by (metis prod.collapse)
  have nx: "admitted Next" by (simp add: admitted_def)
  show ?thesis
    using n6 n8 nx
    by (simp add: admissions_step [OF s1] admissions_step [OF s2] admissions_step [OF s3]
          admissions_step [OF s4] admissions_step [OF s5] admissions_step [OF e6]
          admissions_step [OF s7] admissions_step [OF e8] del: admissions.simps(2))
qed

lemma gap_rule:
  assumes "c \<noteq> 0" "fst (rateLimiter (Some c) t bs) = Next" "t' - t < 900"
  shows "rateLimiter (Some c) t' (snd (rateLimiter (Some c) t bs))
         = (SlowDown, (snd (rateLimiter (Some c) t bs))(c \<mapsto>
               refill t' (the (snd (rateLimiter (Some c) t bs) c))))"
proof -
  obtain b where b: "snd (rateLimiter (Some c) t bs) c = Some b" "lastHit b = t"
    using assms(1,2)
    by (auto simp: rateLimiter_def Let_def split: option.splits if_splits)
  show ?thesis using limiter_gap [of c "snd (rateLimiter (Some c) t bs)" b t'] b assms by simp
qed

lemma admissions_take:
  "fst (admissions (take n cs) bs) = take n (fst (admissions cs bs))"
proof (induction cs arbitrary: n bs)
  case Nil
  then show ?case by simp
next
  case (Cons x xs)
  obtain chat now where x: "x = (chat, now)" by (cases x)
  show ?case
  proof (cases n)
    case 0
    then show ?thesis by simp
  next
    case (Suc m)
    then show ?thesis using Cons.IH [of m] by (simp add: x case_prod_beta Let_def)
  qed
qed

text \<open>
  C3 (as amended). For a conversation with a non-zero id and no bucket yet, whose first
  request arrives at a clock reading of at least 900:
  five requests, each at least 900 ms after the one before, are all admitted;
  a sixth request before 6000 ms have passed since the first is denied;
  a seventh request that comes at least 6000 ms after the sixth and less than 12000 ms after
  the first is admitted, and an eighth less than 6000 ms after the seventh is denied (exactly
  one more admission);
  and a request less than 900 ms after an admitted request of the same conversation gets the
  gap-rule reply, whatever the token count.
\<close>

theorem rate_governor_scenario:
  assumes c: "c \<noteq> 0" and fresh: "bs c = None" and t1: "900 \<le> t1"
    and sp: "t1 + 900 \<le> t2" "t2 + 900 \<le> t3" "t3 + 900 \<le> t4" "t4 + 900 \<le> t5"
  shows "map admitted (fst (admissions
            [(Some c, t1), (Some c, t2), (Some c, t3), (Some c, t4), (Some c, t5)] bs))
         = [True, True, True, True, True]
    \<and> (t5 \<le> t6 \<and> t6 < t1 + 6000 \<longrightarrow>
         map admitted (fst (admissions
            [(Some c, t1), (Some c, t2), (Some c, t3), (Some c, t4), (Some c, t5),
             (Some c, t6)] bs))
         = [True, True, True, True, True, False])
    \<and> (t5 \<le> t6 \<and> t6 < t1 + 6000 \<and> t6 + 6000 \<le> t7 \<and> t7 < t1 + 12000
          \<and> t7 \<le> t8 \<and> t8 < t7 + 6000 \<longrightarrow>
         map admitted (fst (admissions
            [(Some c, t1), (Some c, t2), (Some c, t3), (Some c, t4), (Some c, t5),
             (Some c, t6), (Some c, t7), (Some c, t8)] bs))
         = [True, True, True, True, True, False, True, False])
    \<and> (\<forall>bs0 t t'. fst (rateLimiter (Some c) t bs0) = Next \<and> t' - t < 900 \<longrightarrow>
         fst (rateLimiter (Some c) t' (snd (rateLimiter (Some c) t bs0))) = SlowDown)"
proof (intro conjI impI allI)
  show "map admitted (fst (admissions
            [(Some c, t1), (Some c, t2), (Some c, t3), (Some c, t4), (Some c, t5)] bs))
         = [True, True, True, True, True]"
    using five_spaced_admitted [of c bs t1 t2 t3 t4 t5] assms by simp
next
  assume w: "t5 \<le> t6 \<and> t6 < t1 + 6000"
  let ?cs = "[(Some c, t1), (Some c, t2), (Some c, t3), (Some c, t4), (Some c, t5),
             (Some c, t6), (Some c, t6 + 6000), (Some c, t6 + 6000)]"
  have "map admitted (fst (admissions ?cs bs))
          = [True, True, True, True, True, False, True, False]"
    using window_scenario [of c bs t1 t2 t3 t4 t5 t6 "t6 + 6000" "t6 + 6000"] assms w by simp
  then have "map admitted (take 6 (fst (admissions ?cs bs)))
          = [True, True, True, True, True, False]"
    by (simp add: take_map [symmetric] del: admissions.simps)
  then show "map admitted (fst (admissions
            [(Some c, t1), (Some c, t2), (Some c, t3), (Some c, t4), (Some c, t5),
             (Some c, t6)] bs))
         = [True, True, True, True, True, False]"
    using admissions_take [of 6 ?cs bs] by (simp del: admissions.simps)
next
  assume w: "t5 \<le> t6 \<and> t6 < t1 + 6000 \<and> t6 + 6000 \<le> t7 \<and> t7 < t1 + 12000
          \<and> t7 \<le> t8 \<and> t8 < t7 + 6000"
  show "map admitted (fst (admissions
            [(Some c, t1), (Some c, t2), (Some c, t3), (Some c, t4), (Some c, t5),
             (Some c, t6), (Some c, t7), (Some c, t8)] bs))
         = [True, True, True, True, True, False, True, False]"
    using window_scenario [of c bs t1 t2 t3 t4 t5 t6 t7 t8] assms w by simp
next
  fix bs0 t t'
  assume "fst (rateLimiter (Some c) t bs0) = Next \<and> t' - t < 900"
  then show "fst (rateLimiter (Some c) t' (snd (rateLimiter (Some c) t bs0))) = SlowDown"
    using gap_rule [of c t bs0 t'] c by simp
qed

theorem rate_governor_scenario_witness:
  "map admitted (fst (admissions
      [(Some 7, 1000000), (Some 7, 1000900), (Some 7, 1001800), (Some 7, 1002700),
       (Some 7, 1003600)] Map.empty))
     = [True, True, True, True, True]
   \<and> map admitted (fst (admissions
      [(Some 7, 1000000), (Some 7, 1000900), (Some 7, 1001800), (Some 7, 1002700),
       (Some 7, 1003600), (Some 7, 1004500)] Map.empty))
     = [True, True, True, True, True, False]
   \<and> map admitted (fst (admissions
      [(Some 7, 1000000), (Some 7, 1000900), (Some 7, 1001800), (Some 7, 1002700),
       (Some 7, 1003600), (Some 7, 1004500), (Some 7, 1010500), (Some 7, 1011400)] Map.empty))
     = [True, True, True, True, True, False, True, False]
   \<and> fst (rateLimiter (Some 7) 1000000 Map.empty) = Next
   \<and> fst (rateLimiter (Some 7) 1000500 (snd (rateLimiter (Some 7) 1000000 Map.empty))) = SlowDown"
proof -
  have n: "fst (rateLimiter (Some 7) 1000000 Map.empty) = Next"
    by (simp add: rateLimiter_def refill_def Let_def CAPACITY_def MIN_GAP_MS_def)
  show ?thesis
    using rate_governor_scenario [of 7 Map.empty 1000000 1000900 1001800 1002700 1003600
        1004500 1010500 1011400] n
    by (simp del: admissions.simps)
qed

text \<open>
  The scenario as the specification words it fails twice. After the denied sixth request a
  wait of 7500 ms (at least 6000 ms) brings two tokens, and two more requests are admitted,
  not exactly one. And of two requests 450 ms apart the second is admitted when the first was
  itself denied, since the gap is measured from the last admitted request.
\<close>

theorem rate_governor_counterexample:
  "map admitted (fst (admissions
      [(Some 7, 1000000), (Some 7, 1000900), (Some 7, 1001800), (Some 7, 1002700),
       (Some 7, 1003600), (Some 7, 1004500), (Some 7, 1012000), (Some 7, 1012900)] Map.empty))
     = [True, True, True, True, True, False, True, True]
   \<and> map admitted (fst (admissions
      [(Some 7, 1000000), (Some 7, 1000500), (Some 7, 1000950)] Map.empty))
     = [True, False, True]"
  by (simp add: rateLimiter_def refill_def Let_def CAPACITY_def MIN_GAP_MS_def REFILL_MS_def
        admitted_def js_rem_def ceil_div_1000_def)

lemma refill_ok: "bucket_ok b \<Longrightarrow> bucket_ok (refill now b)"
  by (simp add: bucket_ok_def refill_def Let_def CAPACITY_def)

lemma limiter_ok:
  assumes "buckets_ok bs"
  shows "buckets_ok (snd (rateLimiter chat now bs))"
proof (cases chat)
  case None
  then show ?thesis using assms by (simp add: rateLimiter_def)
next
  case (Some c)
  let ?b0 = "case bs c of None \<Rightarrow> \<lparr>tokens = CAPACITY, last_t = now, lastHit = 0\<rparr> | Some b \<Rightarrow> b"
  have b0: "bucket_ok ?b0"
    using assms by (auto simp: buckets_ok_def bucket_ok_def CAPACITY_def split: option.splits)
  have b1: "bucket_ok (refill now ?b0)" using refill_ok [OF b0] .
  show ?thesis
    using b1 assms unfolding Some rateLimiter_def buckets_ok_def bucket_ok_def Let_def
    by (auto simp: CAPACITY_def split: if_splits)
qed

lemma admissions_ok: "buckets_ok bs \<Longrightarrow> buckets_ok (snd (admissions cs bs))"
proof (induction cs arbitrary: bs)
  case Nil
  then show ?case by simp
next
  case (Cons x xs)
  obtain chat now where x: "x = (chat, now)" by (cases x)
  have "buckets_ok (snd (rateLimiter chat now bs))" using limiter_ok [OF Cons.prems] .
  then have "buckets_ok (snd (admissions xs (snd (rateLimiter chat now bs))))"
    by (rule Cons.IH)
  then show ?case by (simp add: x case_prod_beta)
qed

lemma limiter_step_facts:
  assumes "rateLimiter chat now bs = (r, bs')" "bs c = Some b" 
  shows "\<exists>b'. bs' c = Some b' \<and> last_t b \<le> last_t b'
          \<and> (if chat = Some c \<and> c \<noteq> 0
              then (if r = Next then 0 < tokens (refill now b) \<and> tokens b' = tokens (refill now b) - 1
                    else tokens b' = tokens (refill now b))
              else b' = b)"
proof (cases "chat = Some c \<and> c \<noteq> 0")
  case True
  then show ?thesis
    using assms refill_last_mono [of b now]
    by (auto simp: rateLimiter_def Let_def split: if_splits)
next
  case False
  then have "bs' c = Some b"
    using assms by (auto simp: rateLimiter_def Let_def split: option.splits if_splits)
  then show ?thesis using False by auto
qed

text \<open>
  C9. After any sequence of requests from any conversations, starting from the empty map of
  buckets, every bucket holds between 0 and 5 tokens. The refill never raises the count
  above 5 and never moves the refill timestamp backwards (it keeps it or sets it to the
  current clock reading). One request changes only the bucket of its own conversation: an
  admitted request finds a positive count after the refill and takes exactly one token, a
  denied request takes none.
\<close>

theorem rate_bucket_invariant:
  "(\<forall>c b. snd (admissions cs Map.empty) c = Some b \<longrightarrow> 0 \<le> tokens b \<and> tokens b \<le> 5)
   \<and> (\<forall>(b::bucket) now. tokens b \<le> 5 \<longrightarrow> tokens (refill now b) \<le> 5)
   \<and> (\<forall>(b::bucket) now. last_t b \<le> last_t (refill now b)
          \<and> (last_t (refill now b) = last_t b \<or> last_t (refill now b) = now))
   \<and> (\<forall>chat now bs r bs' c b.
         rateLimiter chat now bs = (r, bs') \<and> bs c = Some b \<longrightarrow>
         (\<exists>b'. bs' c = Some b' \<and> last_t b \<le> last_t b'
           \<and> (if chat = Some c \<and> c \<noteq> 0
               then (if r = Next
                     then 0 < tokens (refill now b) \<and> tokens b' = tokens (refill now b) - 1
                     else tokens b' = tokens (refill now b))
               else b' = b)))"
proof (intro conjI allI impI)
  fix c b
  assume a: "snd (admissions cs Map.empty) c = Some b"
  have "buckets_ok (snd (admissions cs Map.empty))"
    by (rule admissions_ok) (simp add: buckets_ok_def)
  with a have "bucket_ok b" by (simp add: buckets_ok_def)
  then show "0 \<le> tokens b" and "tokens b \<le> 5" by (simp_all add: bucket_ok_def CAPACITY_def)
next
  fix b :: bucket and now
  assume "tokens b \<le> 5"
  then show "tokens (refill now b) \<le> 5" by (rule refill_tokens_upper)
next
  fix b :: bucket and now
  show "last_t b \<le> last_t (refill now b)" by (rule refill_last_mono)
  show "last_t (refill now b) = last_t b \<or> last_t (refill now b) = now"
    by (simp add: refill_def Let_def)
next
  fix chat now bs r bs' c b
  assume "rateLimiter chat now bs = (r, bs') \<and> bs c = Some b"
  then show "\<exists>b'. bs' c = Some b' \<and> last_t b \<le> last_t b'
           \<and> (if chat = Some c \<and> c \<noteq> 0
               then (if r = Next
                     then 0 < tokens (refill now b) \<and> tokens b' = tokens (refill now b) - 1
                     else tokens b' = tokens (refill now b))
               else b' = b)"
    using limiter_step_facts [of chat now bs r bs' c b] by simp
qed

theorem rate_bucket_invariant_witness:
  "snd (admissions [(Some 7, 1000000), (Some 7, 1000100)] Map.empty) 7
      = Some \<lparr>tokens = 4, last_t = 1000000, lastHit = 1000000\<rparr>
   \<and> (0::int) \<le> tokens \<lparr>tokens = 4, last_t = 1000000, lastHit = 1000000\<rparr>
   \<and> tokens \<lparr>tokens = 4, last_t = 1000000, lastHit = 1000000\<rparr> \<le> 5
   \<and> tokens (refill 1007000 \<lparr>tokens = 4, last_t = 1000000, lastHit = 1000000\<rparr>) \<le> 5
   \<and> rateLimiter (Some 7) 1007000 [7 \<mapsto> \<lparr>tokens = 4, last_t = 1000000, lastHit = 1000000\<rparr>]
      = (Next, [7 \<mapsto> \<lparr>tokens = 4, last_t = 1007000, lastHit = 1007000\<rparr>])
   \<and> (0::int) < tokens (refill 1007000 \<lparr>tokens = 4, last_t = 1000000, lastHit = 1000000\<rparr>)"
proof -
  let ?b = "\<lparr>tokens = 4, last_t = 1000000, lastHit = 1000000\<rparr>"
  let ?cs = "[(Some 7, 1000000), (Some 7, 1000100)]"
  note inv = rate_bucket_invariant [of ?cs]
  have fin: "snd (admissions ?cs Map.empty) 7 = Some ?b"
    by (simp add: rateLimiter_def refill_def Let_def CAPACITY_def MIN_GAP_MS_def REFILL_MS_def)
  have step: "rateLimiter (Some 7) 1007000 [7 \<mapsto> ?b]
      = (Next, [7 \<mapsto> \<lparr>tokens = 4, last_t = 1007000, lastHit = 1007000\<rparr>])"
    by (simp add: rateLimiter_def refill_def Let_def CAPACITY_def MIN_GAP_MS_def REFILL_MS_def)
  note i1 = inv [THEN conjunct1, rule_format]
  note i2 = inv [THEN conjunct2, THEN conjunct1, rule_format]
  note i4 = inv [THEN conjunct2, THEN conjunct2, THEN conjunct2, rule_format]
  have r1: "0 \<le> tokens ?b \<and> tokens ?b \<le> 5" using i1 [of 7 ?b] fin by simp
  have r2: "tokens (refill 1007000 ?b) \<le> 5" using i2 [of ?b 1007000] by simp
  have m: "[7 \<mapsto> ?b] (7::int) = Some ?b" by simp
  have r3: "0 < tokens (refill 1007000 ?b)"
    using i4 [of "Some 7" 1007000 "[7 \<mapsto> ?b]" Next
        "[7 \<mapsto> \<lparr>tokens = 4, last_t = 1007000, lastHit = 1007000\<rparr>]" 7 ?b] step m
    by simp
  show ?thesis using fin r1 r2 step r3 by (simp del: admissions.simps)
qed

section \<open>Properties of sorting and of the contract resolver\<close>

lemma set_insort_cmp: "set (insort_cmp cmp x ys) = insert x (set ys)"
  by (induction ys) auto

lemma set_js_sort: "set (js_sort cmp xs) = set xs"
  by (induction xs) (simp_all add: js_sort_def set_insort_cmp)

lemma js_sort_Cons: "js_sort cmp (x # xs) = insort_cmp cmp x (js_sort cmp xs)"
  by (simp add: js_sort_def)

lemma js_sort_Nil_iff: "js_sort cmp xs = [] \<longleftrightarrow> xs = []"
  using set_js_sort [of cmp xs] by (metis set_empty)

lemma js_sort_head:
  assumes total: "\<And>a b. cmp a b > 0 \<Longrightarrow> cmp b a \<le> 0"
    and trans: "\<And>a b c. cmp a b \<le> 0 \<Longrightarrow> cmp b c \<le> 0 \<Longrightarrow> cmp a c \<le> 0"
    and ne: "xs \<noteq> []"
  shows "\<exists>h t. js_sort cmp xs = h # t \<and> h \<in> set xs \<and> (\<forall>x \<in> set xs. cmp h x \<le> 0)"
  using ne
proof (induction xs)
  case Nil
  then show ?case by simp
next
  case (Cons x xs)
  have refl: "cmp a a \<le> 0" for a
    using total [of a a] by (cases "cmp a a > 0") auto
  show ?case
  proof (cases "xs = []")
    case True
    then show ?thesis using refl by (simp add: js_sort_def)
  next
    case False
    then obtain h t where ht: "js_sort cmp xs = h # t" "h \<in> set xs" "\<forall>y \<in> set xs. cmp h y \<le> 0"
      using Cons.IH by blast
    show ?thesis
    proof (cases "cmp x h > 0")
      case True
      then have "js_sort cmp (x # xs) = h # insort_cmp cmp x t"
        by (simp add: js_sort_Cons ht(1))
      moreover have "cmp h x \<le> 0" using total [OF True] .
      ultimately show ?thesis using ht by auto
    next
      case False
      then have xh: "cmp x h \<le> 0" by simp
      have "js_sort cmp (x # xs) = x # h # t"
        using False by (simp add: js_sort_Cons ht(1))
      moreover have "\<forall>y \<in> set xs. cmp x y \<le> 0"
        using trans [OF xh] ht(3) by blast
      ultimately show ?thesis using refl by auto
    qed
  qed
qed

lemma resolver_cmp_le:
  "resolver_cmp a b \<le> 0 \<longleftrightarrow>
     quote_score b < quote_score a
     \<or> (quote_score b = quote_score a
        \<and> or_default (liquidityUsd b) 0 \<le> or_default (liquidityUsd a) 0)"
  by (auto simp: resolver_cmp_def Let_def)

lemma resolver_sort_head:
  assumes "xs \<noteq> []"
  shows "\<exists>h t. js_sort resolver_cmp xs = h # t \<and> h \<in> set xs
           \<and> (\<forall>x \<in> set xs. resolver_cmp h x \<le> 0)"
proof (rule js_sort_head)
  fix a b :: DexPair
  assume "resolver_cmp a b > 0"
  then have "\<not> resolver_cmp a b \<le> 0" by simp
  then show "resolver_cmp b a \<le> 0" unfolding resolver_cmp_le by auto
next
  fix a b c :: DexPair
  assume "resolver_cmp a b \<le> 0" "resolver_cmp b c \<le> 0"
  then show "resolver_cmp a c \<le> 0" unfolding resolver_cmp_le by auto
qed (rule assms)

lemma upper_good_quote:
  assumes "s \<in> set GOOD_QUOTES"
  shows "toUpperCase s = units_of s"
proof -
  have "\<forall>x \<in> set GOOD_QUOTES. toUpperCase x = units_of x" by code_simp
  then show ?thesis using assms by blast
qed

lemma good_quote_score:
  assumes "quoteSymbol p = Some s" "s \<in> set GOOD_QUOTES"
  shows "quote_score p = 1"
  using assms upper_good_quote [of s] by (simp add: quote_score_def)

lemma quote_score_cases: "quote_score p = 0 \<or> quote_score p = 1"
  by (simp add: quote_score_def)

lemma resolver_direct:
  assumes "isAddress (toLowerCase (js_trim query))"
  shows "resolveContractFromQuery nt query w
         = (Inr (Some \<lparr>address = Some (toLowerCase (js_trim query)), source = ''dex'',
                         note_r = None\<rparr>), w)"
  using assms by (simp add: resolveContractFromQuery_def return_io_def Let_def)

lemma resolver_dex_stage:
  assumes na: "\<not> isAddress (toLowerCase (js_trim query))"
    and s1: "searchDexPairs nt (toLowerCase (js_trim query)) 8 w = (Inr (Some (VPairs pairs)), w1)"
    and ne: "filter usable_base pairs \<noteq> []"
  shows "\<exists>best \<in> set pairs. usable_base best
          \<and> resolveContractFromQuery nt query w
              = (Inr (Some \<lparr>address = baseAddress best, source = ''dex'', note_r = None\<rparr>), w1)
          \<and> (\<forall>p \<in> set pairs. usable_base p \<longrightarrow>
                quote_score p \<le> quote_score best
                \<and> (quote_score p = quote_score best \<longrightarrow>
                     or_default (liquidityUsd p) 0 \<le> or_default (liquidityUsd best) 0))"
proof -
  obtain h t where ht: "js_sort resolver_cmp (filter usable_base pairs) = h # t"
      "h \<in> set (filter usable_base pairs)"
      "\<forall>x \<in> set (filter usable_base pairs). resolver_cmp h x \<le> 0"
    using resolver_sort_head [OF ne] by blast
  have res: "resolveContractFromQuery nt query w
              = (Inr (Some \<lparr>address = baseAddress h, source = ''dex'', note_r = None\<rparr>), w1)"
    using na s1 ht(1) by (simp add: resolveContractFromQuery_def bind_io_def return_io_def Let_def)
  have "\<forall>p \<in> set pairs. usable_base p \<longrightarrow>
                quote_score p \<le> quote_score h
                \<and> (quote_score p = quote_score h \<longrightarrow>
                     or_default (liquidityUsd p) 0 \<le> or_default (liquidityUsd h) 0)"
    using ht(3) unfolding resolver_cmp_le by auto
  then show ?thesis using ht(2) res by auto
qed

text \<open>
  C1 (as amended). When the query, trimmed and lower-cased, is \<open>0x\<close> followed by 40
  hexadecimal digits, the resolver returns that string as the address, with the source
  \<open>dex\<close> and no note, and leaves the state as it is: no request is sent, neither a DEX
  search, nor a pair lookup, nor an aggregator search.
\<close>

theorem resolver_direct_address:
  assumes "isAddress (toLowerCase (js_trim query))"
  shows "resolveContractFromQuery nt query w
           = (Inr (Some \<lparr>address = Some (toLowerCase (js_trim query)), source = ''dex'',
                           note_r = None\<rparr>), w)
         \<and> trace (snd (resolveContractFromQuery nt query w)) = trace w"
  using resolver_direct [OF assms, of nt w] by simp

theorem resolver_direct_address_witness:
  "isAddress (toLowerCase (js_trim '' 0x2260FAC5E5542a773Aa44fBCfeDf7C193bc2C599 ''))
   \<and> fst (resolveContractFromQuery net_down '' 0x2260FAC5E5542a773Aa44fBCfeDf7C193bc2C599 '' world0)
       = Inr (Some \<lparr>address = Some ''0x2260fac5e5542a773aa44fbcfedf7c193bc2c599'',
                     source = ''dex'', note_r = None\<rparr>)
   \<and> trace (snd (resolveContractFromQuery net_down
                    '' 0x2260FAC5E5542a773Aa44fBCfeDf7C193bc2C599 '' world0)) = []"
proof -
  have q: "toLowerCase (js_trim '' 0x2260FAC5E5542a773Aa44fBCfeDf7C193bc2C599 '')
           = ''0x2260fac5e5542a773aa44fbcfedf7c193bc2c599''"
    by code_simp
  have h: "isAddress (toLowerCase (js_trim '' 0x2260FAC5E5542a773Aa44fBCfeDf7C193bc2C599 ''))"
    by code_simp
  show ?thesis
    using resolver_direct_address [OF h, of net_down world0] h
    by (simp add: q world0_def)
qed

text \<open>
  The source of that result is the string \<open>dex\<close>, the one that the DEX-search stage uses
  as well; it is not \<open>direct\<close>, a string that the result type does not have.
\<close>

theorem resolver_direct_source_counterexample:
  "fst (resolveContractFromQuery net_down ''0x2260fac5e5542a773aa44fbcfedf7c193bc2c599'' world0)
     = Inr (Some \<lparr>address = Some ''0x2260fac5e5542a773aa44fbcfedf7c193bc2c599'',
                   source = ''dex'', note_r = None\<rparr>)
   \<and> fst (resolveContractFromQuery net_down ''0x2260fac5e5542a773aa44fbcfedf7c193bc2c599'' world0)
     \<noteq> Inr (Some \<lparr>address = Some ''0x2260fac5e5542a773aa44fbcfedf7c193bc2c599'',
                   source = ''direct'', note_r = None\<rparr>)"
  by code_simp

lemma found_address_iff: "\<not> found_address r \<longleftrightarrow> (\<forall>a. r \<noteq> Inr (Some a))"
  by (auto simp: found_address_def split: sum.splits option.splits)

lemma pair_detail_loop_total: "\<exists>r. fst (pair_detail_loop nt ps w) = Inr r"
  by (induction nt ps w rule: pair_detail_loop.induct)
     (auto split: option.splits prod.splits sum.splits)

lemma coingecko_stage_total: "\<exists>r. fst (coingecko_stage nt q w) = Inr r"
  by (auto simp: coingecko_stage_def swallow_def split: prod.splits sum.splits)

text \<open>
  C2 (as amended). For a query that trims and lower-cases to \<open>btc\<close>: when the DEX search
  returns a list of pairs of which none has a valid base address, the pair-detail stage
  comes back without an address and the aggregator stage comes back without an address
  (each of the two by failing or by finding nothing), the resolver returns the WBTC address
  with the source \<open>special\<close> and the note \<open>Mapped to WBTC (Ethereum)\<close>.
\<close>

theorem resolver_static_mapping:
  assumes q: "toLowerCase (js_trim query) = ''btc''"
    and s1: "fst (searchDexPairs nt ''btc'' 8 w) = Inr (Some (VPairs pairs))"
    and n1: "filter usable_base pairs = []"
    and s2: "\<not> found_address (fst (pair_detail_loop nt pairs (snd (searchDexPairs nt ''btc'' 8 w))))"
    and s3: "\<not> found_address (fst (coingecko_stage nt ''btc''
                (snd (pair_detail_loop nt pairs (snd (searchDexPairs nt ''btc'' 8 w))))))"
  shows "fst (resolveContractFromQuery nt query w)
         = Inr (Some \<lparr>address = Some ''0x2260FAC5E5542a773Aa44fBCfeDf7C193bc2C599'',
                       source = ''special'', note_r = Some ''Mapped to WBTC (Ethereum)''\<rparr>)"
proof -
  define w1 where "w1 = snd (searchDexPairs nt ''btc'' 8 w)"
  define w2 where "w2 = snd (pair_detail_loop nt pairs w1)"
  define w3 where "w3 = snd (coingecko_stage nt ''btc'' w2)"
  have e1: "searchDexPairs nt ''btc'' 8 w = (Inr (Some (VPairs pairs)), w1)"
    using s1 by (simp add: w1_def prod_eq_iff)
  have "fst (pair_detail_loop nt pairs w1) = Inr None"
    using s2 pair_detail_loop_total [of nt pairs w1]
    by (auto simp: found_address_def w1_def split: option.splits)
  then have e2: "pair_detail_loop nt pairs w1 = (Inr None, w2)"
    by (simp add: w2_def prod_eq_iff)
  have "fst (coingecko_stage nt ''btc'' w2) = Inr None"
    using s3 coingecko_stage_total [of nt "''btc''" w2]
    by (auto simp: found_address_def w1_def w2_def split: option.splits)
  then have e3: "coingecko_stage nt ''btc'' w2 = (Inr None, w3)"
    by (simp add: w3_def prod_eq_iff)
  have na: "\<not> isAddress ''btc''" by (simp add: isAddress_def)
  have js: "js_sort resolver_cmp [] = []" by (simp add: js_sort_def)
  have sp: "SPECIAL_MAP ''btc'' = Some (Some ''0x2260FAC5E5542a773Aa44fBCfeDf7C193bc2C599'',
                                       Some ''Mapped to WBTC (Ethereum)'')"
    by (simp add: SPECIAL_MAP_def)
  show ?thesis
    unfolding resolveContractFromQuery_def q Let_def
    by (simp add: na bind_io_def e1 n1 js e2 e3 sp return_io_def)
qed

theorem resolver_static_mapping_witness:
  "toLowerCase (js_trim '' BTC '') = ''btc''
   \<and> fst (searchDexPairs net_quiet ''btc'' 8 world0) = Inr (Some (VPairs []))
   \<and> fst (resolveContractFromQuery net_quiet '' BTC '' world0)
       = Inr (Some \<lparr>address = Some ''0x2260FAC5E5542a773Aa44fBCfeDf7C193bc2C599'',
                     source = ''special'', note_r = Some ''Mapped to WBTC (Ethereum)''\<rparr>)"
proof -
  have q: "toLowerCase (js_trim '' BTC '') = ''btc''" by code_simp
  have s1: "fst (searchDexPairs net_quiet ''btc'' 8 world0) = Inr (Some (VPairs []))"
    by code_simp
  have n1: "filter usable_base [] = []" by simp
  have s2: "\<not> found_address (fst (pair_detail_loop net_quiet []
               (snd (searchDexPairs net_quiet ''btc'' 8 world0))))"
    by (simp add: found_address_def)
  have s3: "\<not> found_address (fst (coingecko_stage net_quiet ''btc''
               (snd (pair_detail_loop net_quiet [] (snd (searchDexPairs net_quiet ''btc'' 8 world0))))))"
    by code_simp
  show ?thesis
    using resolver_static_mapping [OF q s1 n1 s2 s3] q s1 by simp
qed

text \<open>
  When the DEX search itself fails, the failure reaches the caller: the search is not inside
  a \<^verbatim>\<open>try\<close>. And the source of the static result is the string \<open>special\<close>, not
  \<open>static-mapping\<close>.
\<close>

theorem resolver_static_mapping_counterexample:
  "fst (resolveContractFromQuery net_down ''btc'' world0) = Inl (HttpFailure None)
   \<and> fst (resolveContractFromQuery net_quiet ''btc'' world0)
       \<noteq> Inr (Some \<lparr>address = Some ''0x2260FAC5E5542a773Aa44fBCfeDf7C193bc2C599'',
                     source = ''static-mapping'', note_r = Some ''Mapped to WBTC (Ethereum)''\<rparr>)"
  by code_simp

text \<open>
  C4. When the query is not an address and the DEX search returns pairs of which at least
  one has a valid base address, the resolver returns the base address of one of those
  pairs, \<open>best\<close>, with the source \<open>dex\<close>. No pair with a valid base address has a higher
  quote score than \<open>best\<close> (1 for a recognised quote symbol, 0 otherwise), and among the
  pairs with the same quote score none has a higher liquidity. So when any pair with a
  valid base address has its quote symbol in \<open>GOOD_QUOTES\<close>, the selected pair has a
  recognised quote, whatever the liquidity of the pairs with an unrecognised quote.
\<close>

theorem resolver_prefers_recognized_quote:
  assumes na: "\<not> isAddress (toLowerCase (js_trim query))"
    and s1: "fst (searchDexPairs nt (toLowerCase (js_trim query)) 8 w) = Inr (Some (VPairs pairs))"
    and ne: "\<exists>p \<in> set pairs. usable_base p"
  shows "\<exists>best \<in> set pairs. usable_base best
          \<and> fst (resolveContractFromQuery nt query w)
              = Inr (Some \<lparr>address = baseAddress best, source = ''dex'', note_r = None\<rparr>)
          \<and> (\<forall>p \<in> set pairs. usable_base p \<longrightarrow>
                quote_score p \<le> quote_score best
                \<and> (quote_score p = quote_score best \<longrightarrow>
                     or_default (liquidityUsd p) 0 \<le> or_default (liquidityUsd best) 0))
          \<and> (\<forall>p \<in> set pairs. usable_base p \<longrightarrow>
                (\<exists>s \<in> set GOOD_QUOTES. quoteSymbol p = Some s) \<longrightarrow>
                quote_score best = 1)"
proof -
  have e1: "searchDexPairs nt (toLowerCase (js_trim query)) 8 w
            = (Inr (Some (VPairs pairs)), snd (searchDexPairs nt (toLowerCase (js_trim query)) 8 w))"
    using s1 by (simp add: prod_eq_iff)
  have ne': "filter usable_base pairs \<noteq> []"
    using ne by (simp add: filter_empty_conv)
  obtain best where b: "best \<in> set pairs" "usable_base best"
    "resolveContractFromQuery nt query w
       = (Inr (Some \<lparr>address = baseAddress best, source = ''dex'', note_r = None\<rparr>),
          snd (searchDexPairs nt (toLowerCase (js_trim query)) 8 w))"
    "\<forall>p \<in> set pairs. usable_base p \<longrightarrow>
                quote_score p \<le> quote_score best
                \<and> (quote_score p = quote_score best \<longrightarrow>
                     or_default (liquidityUsd p) 0 \<le> or_default (liquidityUsd best) 0)"
    using resolver_dex_stage [OF na e1 ne'] by blast
  have "\<forall>p \<in> set pairs. usable_base p \<longrightarrow>
                (\<exists>s \<in> set GOOD_QUOTES. quoteSymbol p = Some s) \<longrightarrow> quote_score best = 1"
  proof (intro ballI impI)
    fix p assume p: "p \<in> set pairs" "usable_base p" "\<exists>s \<in> set GOOD_QUOTES. quoteSymbol p = Some s"
    then have "quote_score p = 1" using good_quote_score by blast
    moreover have "quote_score p \<le> quote_score best" using b(4) p by blast
    ultimately show "quote_score best = 1" using quote_score_cases [of best] by auto
  qed
  then show ?thesis using b by (intro bexI [of _ best]) simp_all
qed

theorem resolver_prefers_recognized_quote_witness:
  "\<not> isAddress (toLowerCase (js_trim ''pepe''))
   \<and> fst (searchDexPairs net_two_pairs (toLowerCase (js_trim ''pepe'')) 8 world0)
       = Inr (Some (VPairs [pair_xyz, pair_usdc]))
   \<and> usable_base pair_xyz \<and> usable_base pair_usdc
   \<and> quote_score pair_xyz = 0 \<and> quote_score pair_usdc = 1
   \<and> or_default (liquidityUsd pair_usdc) 0 < or_default (liquidityUsd pair_xyz) 0
   \<and> fst (resolveContractFromQuery net_two_pairs ''pepe'' world0)
       = Inr (Some \<lparr>address = baseAddress pair_usdc, source = ''dex'', note_r = None\<rparr>)"
proof -
  have na: "\<not> isAddress (toLowerCase (js_trim ''pepe''))" by code_simp
  have s1: "fst (searchDexPairs net_two_pairs (toLowerCase (js_trim ''pepe'')) 8 world0)
       = Inr (Some (VPairs [pair_xyz, pair_usdc]))" by code_simp
  have u: "usable_base pair_xyz" "usable_base pair_usdc" by code_simp+
  have sc: "quote_score pair_xyz = 0" "quote_score pair_usdc = 1" by code_simp+
  have lq: "or_default (liquidityUsd pair_usdc) 0 < or_default (liquidityUsd pair_xyz) 0"
    by (simp add: pair_usdc_def pair_xyz_def or_default_def)
  have ne: "\<exists>p \<in> set [pair_xyz, pair_usdc]. usable_base p" using u by simp
  obtain best where b: "best \<in> set [pair_xyz, pair_usdc]"
    "fst (resolveContractFromQuery net_two_pairs ''pepe'' world0)
       = Inr (Some \<lparr>address = baseAddress best, source = ''dex'', note_r = None\<rparr>)"
    "\<forall>p \<in> set [pair_xyz, pair_usdc]. usable_base p \<longrightarrow> quote_score p \<le> quote_score best
                \<and> (quote_score p = quote_score best \<longrightarrow>
                     or_default (liquidityUsd p) 0 \<le> or_default (liquidityUsd best) 0)"
    using resolver_prefers_recognized_quote [OF na s1 ne] by blast
  have "quote_score pair_usdc \<le> quote_score best" using b(3) u by simp
  then have "best \<noteq> pair_xyz" using sc by auto
  then have "best = pair_usdc" using b(1) by simp
  then show ?thesis using na s1 u sc lq b(2) by simp
qed

section \<open>Properties of the compute-if-absent accessor\<close>

lemma cache_with_miss:
  assumes "fst (cache_get (clock w) key (cache w)) = None"
  shows "cache_with key fn ttlMs w =
     (case fn (w\<lparr>cache := snd (cache_get (clock w) key (cache w))\<rparr>) of
        (Inl e, w2) \<Rightarrow> (Inl e, w2)
      | (Inr fresh, w2) \<Rightarrow>
          (Inr fresh, w2\<lparr>cache := cache_set (clock w2) key fresh ttlMs (cache w2)\<rparr>))"
  using assms by (simp add: cache_with_def case_prod_beta Let_def)

lemma cache_get_undefined:
  assumes "store key = Some e" "val e = None"
  shows "fst (cache_get t key store) = None"
  using assms by (simp add: cache_get_def)

lemma cache_get_live:
  assumes "store key = Some e" "t \<le> expires e"
  shows "snd (cache_get t key store) = store"
  using assms by (simp add: cache_get_def)

lemma get_pair_no_pair:
  assumes miss: "fst (cache_get (clock w) (''dex:pair:'' @ chain @ '':'' @ pa) (cache w)) = None"
    and empty: "dex_pairs_api nt (length (trace w)) chain pa = Inr None
                \<or> dex_pairs_api nt (length (trace w)) chain pa = Inr (Some [])"
  shows "fst (getPairByChainAndAddress nt chain pa w) = Inr None
    \<and> trace (snd (getPairByChainAndAddress nt chain pa w)) = trace w @ [DexPairGet chain pa]
    \<and> (\<exists>e. cache (snd (getPairByChainAndAddress nt chain pa w))
                (''dex:pair:'' @ chain @ '':'' @ pa) = Some e
            \<and> val e = None
            \<and> expires e = clock (snd (getPairByChainAndAddress nt chain pa w)) + 60000)"
proof -
  define key where "key = ''dex:pair:'' @ chain @ '':'' @ pa"
  define fn :: "cval option io" where
    "fn = bind_io (http_get nt (DexPairGet chain pa) (\<lambda>n. dex_pairs_api nt n chain pa))
          (\<lambda>data.
             case (case data of None \<Rightarrow> [] | Some ps \<Rightarrow> ps) of
               [] \<Rightarrow> return_io None
             | p # _ \<Rightarrow> return_io (Some (VPair p)))"
  define w1 where "w1 = w\<lparr>cache := snd (cache_get (clock w) key (cache w))\<rparr>"
  define w2 where "w2 = w1\<lparr>clock := clock w1 + latency nt (length (trace w1)),
                           trace := trace w1 @ [DexPairGet chain pa]\<rparr>"
  have g: "getPairByChainAndAddress nt chain pa w = cache_with key fn 60000 w"
    by (simp add: getPairByChainAndAddress_def key_def fn_def)
  have m: "fst (cache_get (clock w) key (cache w)) = None"
    using miss by (simp add: key_def)
  have tr: "trace w1 = trace w" by (simp add: w1_def)
  have f: "fn w1 = (Inr None, w2)"
    using empty by (auto simp: fn_def bind_io_def http_get_def return_io_def Let_def w2_def tr)
  have r: "getPairByChainAndAddress nt chain pa w
           = (Inr None, w2\<lparr>cache := cache_set (clock w2) key None 60000 (cache w2)\<rparr>)"
    using cache_with_miss [OF m, of fn 60000] f by (simp add: g w1_def)
  show ?thesis
    unfolding r key_def [symmetric]
    by (simp add: cache_set_def w2_def tr)
qed

text \<open>
  C10. When the producer given to \<open>cache_with\<close> resolves to undefined on a miss, the
  accessor returns undefined and stores it. On a later call for the same key, while the
  entry that holds undefined has not expired, the accessor does not serve the entry: it
  runs the producer of that call, returns what it resolves to and stores it. So it is with
  \<open>getPairByChainAndAddress\<close> when the service reports no pair: the first call returns
  undefined after one request, and a second call for the same pair, any time \<open>d\<close> later,
  sends the request again.
\<close>

theorem cached_undefined_never_served:
  "(fst (cache_get (clock w) key (cache w)) = None
      \<and> fn (w\<lparr>cache := snd (cache_get (clock w) key (cache w))\<rparr>) = (Inr None, w2)
     \<longrightarrow> cache_with key fn ttlMs w
           = (Inr None, w2\<lparr>cache := cache_set (clock w2) key None ttlMs (cache w2)\<rparr>))
   \<and> (cache w key = Some e \<and> val e = None \<and> clock w \<le> expires e
     \<longrightarrow> cache_with key g ttlMs w
           = (case g w of
                (Inl x, w3) \<Rightarrow> (Inl x, w3)
              | (Inr fresh, w3) \<Rightarrow>
                  (Inr fresh, w3\<lparr>cache := cache_set (clock w3) key fresh ttlMs (cache w3)\<rparr>)))
   \<and> (fst (cache_get (clock w) (''dex:pair:'' @ chain @ '':'' @ pa) (cache w)) = None
      \<and> (\<forall>n. dex_pairs_api nt n chain pa = Inr None \<or> dex_pairs_api nt n chain pa = Inr (Some []))
     \<longrightarrow> fst (getPairByChainAndAddress nt chain pa w) = Inr None
       \<and> trace (snd (getPairByChainAndAddress nt chain pa w)) = trace w @ [DexPairGet chain pa]
       \<and> fst (getPairByChainAndAddress nt chain pa
                 ((snd (getPairByChainAndAddress nt chain pa w))
                    \<lparr>clock := clock (snd (getPairByChainAndAddress nt chain pa w)) + d\<rparr>))
           = Inr None
       \<and> trace (snd (getPairByChainAndAddress nt chain pa
                 ((snd (getPairByChainAndAddress nt chain pa w))
                    \<lparr>clock := clock (snd (getPairByChainAndAddress nt chain pa w)) + d\<rparr>)))
           = trace w @ [DexPairGet chain pa, DexPairGet chain pa])"
proof (intro conjI impI)
  assume a: "fst (cache_get (clock w) key (cache w)) = None
      \<and> fn (w\<lparr>cache := snd (cache_get (clock w) key (cache w))\<rparr>) = (Inr None, w2)"
  then show "cache_with key fn ttlMs w
           = (Inr None, w2\<lparr>cache := cache_set (clock w2) key None ttlMs (cache w2)\<rparr>)"
    using cache_with_miss [of w key fn ttlMs] by simp
next
  assume a: "cache w key = Some e \<and> val e = None \<and> clock w \<le> expires e"
  then have m: "fst (cache_get (clock w) key (cache w)) = None"
    using cache_get_undefined [of "cache w" key e "clock w"] by simp
  have "snd (cache_get (clock w) key (cache w)) = cache w"
    using a cache_get_live [of "cache w" key e "clock w"] by simp
  then show "cache_with key g ttlMs w
           = (case g w of
                (Inl x, w3) \<Rightarrow> (Inl x, w3)
              | (Inr fresh, w3) \<Rightarrow>
                  (Inr fresh, w3\<lparr>cache := cache_set (clock w3) key fresh ttlMs (cache w3)\<rparr>))"
    using cache_with_miss [OF m, of g ttlMs] by simp
next
  assume a: "fst (cache_get (clock w) (''dex:pair:'' @ chain @ '':'' @ pa) (cache w)) = None
      \<and> (\<forall>n. dex_pairs_api nt n chain pa = Inr None \<or> dex_pairs_api nt n chain pa = Inr (Some []))"
  define w1 where "w1 = snd (getPairByChainAndAddress nt chain pa w)"
  define w1' where "w1' = w1\<lparr>clock := clock w1 + d\<rparr>"
  have first: "fst (getPairByChainAndAddress nt chain pa w) = Inr None
    \<and> trace w1 = trace w @ [DexPairGet chain pa]
    \<and> (\<exists>e. cache w1 (''dex:pair:'' @ chain @ '':'' @ pa) = Some e \<and> val e = None
            \<and> expires e = clock w1 + 60000)"
  proof -
    have a1: "fst (cache_get (clock w) (''dex:pair:'' @ chain @ '':'' @ pa) (cache w)) = None"
      using a by (rule conjunct1)
    have a2: "dex_pairs_api nt (length (trace w)) chain pa = Inr None
                \<or> dex_pairs_api nt (length (trace w)) chain pa = Inr (Some [])"
      using a by (simp del: append.simps)
    show ?thesis unfolding w1_def by (rule get_pair_no_pair [OF a1 a2])
  qed
  then obtain e1 where e1: "cache w1' (''dex:pair:'' @ chain @ '':'' @ pa) = Some e1" "val e1 = None"
    by (auto simp: w1'_def)
  have m: "fst (cache_get (clock w1') (''dex:pair:'' @ chain @ '':'' @ pa) (cache w1')) = None"
    using cache_get_undefined [of "cache w1'" "''dex:pair:'' @ chain @ '':'' @ pa" e1 "clock w1'"] e1
    by (simp del: append.simps)
  have second: "fst (getPairByChainAndAddress nt chain pa w1') = Inr None
    \<and> trace (snd (getPairByChainAndAddress nt chain pa w1')) = trace w1' @ [DexPairGet chain pa]"
  proof -
    have a2: "dex_pairs_api nt (length (trace w1')) chain pa = Inr None
                \<or> dex_pairs_api nt (length (trace w1')) chain pa = Inr (Some [])"
      using a by (simp del: append.simps)
    show ?thesis using get_pair_no_pair [OF m a2] by (simp del: append.simps)
  qed
  have t: "trace w1' = trace w @ [DexPairGet chain pa]" using first by (simp add: w1'_def)
  show "fst (getPairByChainAndAddress nt chain pa w) = Inr None" using first by simp
  show "trace (snd (getPairByChainAndAddress nt chain pa w)) = trace w @ [DexPairGet chain pa]"
    using first by (simp add: w1_def)
  show "fst (getPairByChainAndAddress nt chain pa
                 ((snd (getPairByChainAndAddress nt chain pa w))
                    \<lparr>clock := clock (snd (getPairByChainAndAddress nt chain pa w)) + d\<rparr>))
           = Inr None"
    using second by (simp add: w1'_def w1_def)
  show "trace (snd (getPairByChainAndAddress nt chain pa
                 ((snd (getPairByChainAndAddress nt chain pa w))
                    \<lparr>clock := clock (snd (getPairByChainAndAddress nt chain pa w)) + d\<rparr>)))
           = trace w @ [DexPairGet chain pa, DexPairGet chain pa]"
    using second t by (simp add: w1'_def w1_def)
qed

theorem cached_undefined_never_served_witness:
  "fst (cache_get (clock world0) ''k'' (cache world0)) = None
   \<and> fst (cache_with ''k'' (return_io None) 60000 world0) = Inr None
   \<and> trace (snd (cache_with ''k'' (http_get net_quiet (DexSearch ''x'') (\<lambda>n. Inr None)) 60000
              (snd (cache_with ''k'' (return_io None) 60000 world0)))) = [DexSearch ''x'']
   \<and> fst (getPairByChainAndAddress net_quiet ''ethereum'' ''0xpair1'' world0) = Inr None
   \<and> trace (snd (getPairByChainAndAddress net_quiet ''ethereum'' ''0xpair1''
        ((snd (getPairByChainAndAddress net_quiet ''ethereum'' ''0xpair1'' world0))
           \<lparr>clock := clock (snd (getPairByChainAndAddress net_quiet ''ethereum'' ''0xpair1'' world0))
                      + 1000\<rparr>)))
      = [DexPairGet ''ethereum'' ''0xpair1'', DexPairGet ''ethereum'' ''0xpair1'']"
proof -
  let ?e = "\<lparr>val = None :: cval option, expires = 1060000\<rparr>"
  let ?w1 = "world0\<lparr>cache := cache_set (clock world0) ''k'' None 60000 (cache world0)\<rparr>"
  let ?g = "http_get net_quiet (DexSearch ''x'') (\<lambda>n. Inr None) :: cval option io"
  have m: "fst (cache_get (clock world0) ''k'' (cache world0)) = None"
    by (simp add: world0_def cache_get_def)
  have f: "return_io None (world0\<lparr>cache := snd (cache_get (clock world0) ''k'' (cache world0))\<rparr>)
           = (Inr (None :: cval option), world0)"
    by (simp add: return_io_def world0_def cache_get_def)
  have p1: "cache_with ''k'' (return_io None) 60000 world0 = (Inr None, ?w1)"
    using cached_undefined_never_served [of world0 "''k''" "return_io None" world0 60000,
        THEN conjunct1] m f by simp
  have h2: "cache ?w1 ''k'' = Some ?e \<and> val ?e = None \<and> clock ?w1 \<le> expires ?e"
    by (simp add: world0_def cache_set_def)
  have p2: "cache_with ''k'' ?g 60000 ?w1
           = (case ?g ?w1 of
                (Inl x, w3) \<Rightarrow> (Inl x, w3)
              | (Inr fresh, w3) \<Rightarrow>
                  (Inr fresh, w3\<lparr>cache := cache_set (clock w3) ''k'' fresh 60000 (cache w3)\<rparr>))"
    using cached_undefined_never_served [of ?w1 "''k''" _ _ 60000 ?e ?g,
        THEN conjunct2, THEN conjunct1] h2 by blast
  have t2: "trace (snd (cache_with ''k'' ?g 60000 ?w1)) = [DexSearch ''x'']"
    unfolding p2 by (simp add: http_get_def world0_def Let_def)
  have m3: "fst (cache_get (clock world0) (''dex:pair:'' @ ''ethereum'' @ '':'' @ ''0xpair1'')
                  (cache world0)) = None"
    by (simp add: world0_def cache_get_def)
  have a3: "\<forall>n. dex_pairs_api net_quiet n ''ethereum'' ''0xpair1'' = Inr None
              \<or> dex_pairs_api net_quiet n ''ethereum'' ''0xpair1'' = Inr (Some [])"
    by (simp add: net_quiet_def)
  note p3 = cached_undefined_never_served [of world0 _ _ _ _ _ _ "''ethereum''" "''0xpair1''"
      net_quiet 1000, THEN conjunct2, THEN conjunct2, rule_format, OF conjI, OF m3 a3]
  have t0: "trace world0 = []" by (simp add: world0_def)
  show ?thesis using m p1 t2 p3 by (simp add: t0)
qed

section \<open>Properties of the market data client\<close>

lemma search_calls_append [simp]: "search_calls (xs @ ys) = search_calls xs + search_calls ys"
  by (simp add: search_calls_def)

lemma search_calls_simps [simp]:
  "search_calls [] = 0"
  "search_calls (CgSearch q # tr) = Suc (search_calls tr)"
  "search_calls (CgMarkets i # tr) = search_calls tr"
  "search_calls (CgCoin i # tr) = search_calls tr"
  by (simp_all add: search_calls_def)

lemma doFetch_search_calls:
  "search_calls (trace (snd (doFetch nt symb w))) = search_calls (trace w) + 1"
  unfolding doFetch_def bind_io_def http_get_def throw_io_def return_io_def Let_def
  by (simp split: sum.splits option.splits list.splits prod.splits)

lemma retryable_iff:
  "retryable e \<longleftrightarrow> (\<exists>st. status_of e = Some st \<and> (st = 429 \<or> 500 \<le> st))"
  by (auto simp: retryable_def split: option.splits)

text \<open>
  C6. Let the first attempt of the live fetch end in \<open>r\<close>. When it succeeds, its value is
  returned after that one attempt. When it fails with a status that is 429 or at least 500,
  the clock moves by the fixed 400 ms and the outcome of the live fetch is the outcome of a
  second attempt, its value or its failure: two attempts, never a third. When it fails in any
  other way, with another status or with none, that failure is the outcome, after one
  attempt.
\<close>

theorem live_fetch_retries_once:
  assumes first: "doFetch nt symb w = (r, w1)"
  shows "(\<forall>x. r = Inr x \<longrightarrow>
            fetchFromCoinGecko nt symb w = (Inr x, w1)
            \<and> search_calls (trace (snd (fetchFromCoinGecko nt symb w))) = search_calls (trace w) + 1)
    \<and> (\<forall>e st. r = Inl e \<and> status_of e = Some st \<and> (st = 429 \<or> 500 \<le> st) \<longrightarrow>
            fetchFromCoinGecko nt symb w = doFetch nt symb (w1\<lparr>clock := clock w1 + 400\<rparr>)
            \<and> search_calls (trace (snd (fetchFromCoinGecko nt symb w))) = search_calls (trace w) + 2)
    \<and> (\<forall>e. r = Inl e \<and> \<not> (\<exists>st. status_of e = Some st \<and> (st = 429 \<or> 500 \<le> st)) \<longrightarrow>
            fetchFromCoinGecko nt symb w = (Inl e, w1)
            \<and> search_calls (trace (snd (fetchFromCoinGecko nt symb w))) = search_calls (trace w) + 1)"
proof -
  have c1: "search_calls (trace w1) = search_calls (trace w) + 1"
    using doFetch_search_calls [of nt symb w] first by simp
  have c2: "search_calls (trace (snd (doFetch nt symb (w1\<lparr>clock := clock w1 + 400\<rparr>))))
            = search_calls (trace w) + 2"
    using doFetch_search_calls [of nt symb "w1\<lparr>clock := clock w1 + 400\<rparr>"] c1 by simp
  show ?thesis
  proof (intro conjI allI impI)
    fix x assume "r = Inr x"
    then have "fetchFromCoinGecko nt symb w = (Inr x, w1)"
      using first by (simp add: fetchFromCoinGecko_def)
    then show "fetchFromCoinGecko nt symb w = (Inr x, w1)"
      and "search_calls (trace (snd (fetchFromCoinGecko nt symb w))) = search_calls (trace w) + 1"
      using c1 by simp_all
  next
    fix e st assume a: "r = Inl e \<and> status_of e = Some st \<and> (st = 429 \<or> 500 \<le> st)"
    then have "retryable e" unfolding retryable_iff by blast
    then have "fetchFromCoinGecko nt symb w = doFetch nt symb (w1\<lparr>clock := clock w1 + 400\<rparr>)"
      using first a by (simp add: fetchFromCoinGecko_def bind_io_def sleep_def)
    then show "fetchFromCoinGecko nt symb w = doFetch nt symb (w1\<lparr>clock := clock w1 + 400\<rparr>)"
      and "search_calls (trace (snd (fetchFromCoinGecko nt symb w))) = search_calls (trace w) + 2"
      using c2 by simp_all
  next
    fix e assume a: "r = Inl e \<and> \<not> (\<exists>st. status_of e = Some st \<and> (st = 429 \<or> 500 \<le> st))"
    then have "\<not> retryable e" unfolding retryable_iff by blast
    then have "fetchFromCoinGecko nt symb w = (Inl e, w1)"
      using first a by (simp add: fetchFromCoinGecko_def)
    then show "fetchFromCoinGecko nt symb w = (Inl e, w1)"
      and "search_calls (trace (snd (fetchFromCoinGecko nt symb w))) = search_calls (trace w) + 1"
      using c1 by simp_all
  qed
qed

theorem live_fetch_retries_once_witness:
  "fst (doFetch net_flaky ''btc'' world0) = Inl (HttpFailure (Some 429))
   \<and> status_of (HttpFailure (Some 429)) = Some 429
   \<and> fst (fetchFromCoinGecko net_flaky ''btc'' world0)
       = Inr \<lparr>ci_id = IdStr ''bitcoin'', ci_symbol = units_of ''BTC'', ci_name = units_of ''Bitcoin'',
              price = 60000,
              marketCap = 1200000000000, volume24h = 30000000000, liquidityScore = None\<rparr>
   \<and> search_calls (trace (snd (fetchFromCoinGecko net_flaky ''btc'' world0))) = 2
   \<and> fst (doFetch net_down ''btc'' world0) = Inl (HttpFailure None)
   \<and> fst (fetchFromCoinGecko net_down ''btc'' world0) = Inl (HttpFailure None)
   \<and> search_calls (trace (snd (fetchFromCoinGecko net_down ''btc'' world0))) = 1"
proof -
  let ?w1 = "snd (doFetch net_flaky ''btc'' world0)"
  let ?v1 = "snd (doFetch net_down ''btc'' world0)"
  have f1: "fst (doFetch net_flaky ''btc'' world0) = Inl (HttpFailure (Some 429))" by code_simp
  have g1: "fst (doFetch net_down ''btc'' world0) = Inl (HttpFailure None)" by code_simp
  have st: "status_of (HttpFailure (Some 429)) = Some 429" by (simp add: status_of_def)
  have ns: "\<not> (\<exists>st. status_of (HttpFailure None) = Some st \<and> (st = 429 \<or> 500 \<le> st))"
    by (simp add: status_of_def)
  have t0: "search_calls (trace world0) = 0" by (simp add: world0_def search_calls_def)
  have e1: "doFetch net_flaky ''btc'' world0 = (Inl (HttpFailure (Some 429)), ?w1)"
    using f1 by (simp add: prod_eq_iff)
  have e2: "doFetch net_down ''btc'' world0 = (Inl (HttpFailure None), ?v1)"
    using g1 by (simp add: prod_eq_iff)
  note a = live_fetch_retries_once [OF e1, THEN conjunct2, THEN conjunct1, rule_format,
      of "HttpFailure (Some 429)" 429]
  note b = live_fetch_retries_once [OF e2, THEN conjunct2, THEN conjunct2, rule_format,
      of "HttpFailure None"]
  have a0: "(Inl (HttpFailure (Some 429)) :: error + CoinInfo) = Inl (HttpFailure (Some 429))
             \<and> status_of (HttpFailure (Some 429)) = Some 429
             \<and> ((429::nat) = 429 \<or> (500::nat) \<le> 429)"
    by (simp add: st)
  have b0: "(Inl (HttpFailure None) :: error + CoinInfo) = Inl (HttpFailure None)
             \<and> \<not> (\<exists>st. status_of (HttpFailure None) = Some st \<and> (st = 429 \<or> 500 \<le> st))"
    using ns by simp
  have a': "search_calls (trace (snd (fetchFromCoinGecko net_flaky ''btc'' world0))) = 2"
    using a [OF a0, THEN conjunct2] t0 by simp
  have b': "fst (fetchFromCoinGecko net_down ''btc'' world0) = Inl (HttpFailure None)"
    "search_calls (trace (snd (fetchFromCoinGecko net_down ''btc'' world0))) = 1"
    using b [OF b0, THEN conjunct1] b [OF b0, THEN conjunct2] t0 by simp_all
  have r: "fst (fetchFromCoinGecko net_flaky ''btc'' world0)
       = Inr \<lparr>ci_id = IdStr ''bitcoin'', ci_symbol = units_of ''BTC'', ci_name = units_of ''Bitcoin'',
              price = 60000,
              marketCap = 1200000000000, volume24h = 30000000000, liquidityScore = None\<rparr>"
    by code_simp
  show ?thesis using f1 st r a' g1 b' by simp
qed

lemma non_null_simps [simp]:
  "non_null [] = []"
  "non_null (None # xs) = non_null xs"
  "non_null (Some x # xs) = x # non_null xs"
  by (simp_all add: non_null_def List.map_filter_simps)










end
